theory Spec2Isabelle
  imports Complex_Main "HOL-Library.Word" "HOL-Library.Monad_Syntax"
begin

section \<open>The xdg-shell-v6 view adapter of rootston (\<^verbatim>\<open>rootston/xdg_shell_v6.c\<close>)\<close>

text \<open>
  A shallow embedding of \<^verbatim>\<open>rootston/xdg_shell_v6.c\<close>. Conventions:
  \<^item> \<^verbatim>\<open>uint32_t\<close> is \<open>32 word\<close>; comparisons on it are the unsigned ones of C.
  \<^item> C \<^verbatim>\<open>int\<close> (the fields of \<^verbatim>\<open>wlr_box\<close> and of a surface's committed state) is
    \<open>int\<close>: the file only compares these values with 0 and converts them, it never
    computes with them.
  \<^item> \<^verbatim>\<open>double\<close> (view positions) is the type \<open>double\<close> below: IEEE 754 binary64 values
    with round-to-nearest-even addition and subtraction, infinities and NaN.
  \<^item> A pointer is an address (\<open>nat\<close>) into a typed store, one store per struct type;
    a pointer that may be \<^verbatim>\<open>NULL\<close> is an \<open>option\<close>.
  \<^item> A function returns \<open>None\<close> where the C program stops: a failed \<^verbatim>\<open>assert\<close>, or a
    dereference of \<^verbatim>\<open>NULL\<close> or of an address that holds no object.
  \<^item> Calls into the rest of the compositor and into the protocol library are appended
    to a trace, in program order.
\<close>

type_synonym u32 = "32 word"
type_synonym ptr = nat

subsection \<open>Double-precision numbers\<close>

text \<open>
  C \<^verbatim>\<open>double\<close> is IEEE 754 binary64 with the default rounding, to nearest with ties to
  even. A finite double is \<open>Finite r\<close> where \<open>r\<close> is a multiple of \<open>2 powi (e - 52)\<close> below
  \<open>2 powi (e + 1)\<close> in absolute value, for an exponent \<open>e\<close> from -1022 to 1023. The sign of a
  zero is not represented: the file only adds, subtracts and compares doubles, and none of
  these tells \<^verbatim>\<open>-0.0\<close> from \<^verbatim>\<open>0.0\<close> in its operands. Each operation rounds its own
  result to a double, as a C implementation that evaluates \<^verbatim>\<open>double\<close> expressions in
  their own precision does. \<open>Finite r\<close> is written for any real \<open>r\<close>; what the operations
  return is always a double.
\<close>

datatype double = Finite real | PlusInfinity | MinusInfinity | NaN

definition round_half_even :: "real \<Rightarrow> int" where
  "round_half_even t =
     (let f = \<lfloor>t\<rfloor>; d = t - of_int f
      in if d < 1 / 2 then f else if 1 / 2 < d then f + 1 else if even f then f else f + 1)"

text \<open>\<open>find_exponent n e a\<close> is the greatest exponent among \<open>e\<close>, \<open>e - 1\<close>, ... whose power
  of two is at most \<open>a\<close>, and \<open>e - n\<close> if there is none within \<open>n\<close> steps.\<close>

fun find_exponent :: "nat \<Rightarrow> int \<Rightarrow> real \<Rightarrow> int" where
  "find_exponent 0 e a = e"
| "find_exponent (Suc n) e a = (if 2 powi e \<le> a then e else find_exponent n (e - 1) a)"

text \<open>The binary exponent of a positive magnitude, from 1023 down to -1022, where the
  subnormal numbers lie.\<close>

definition double_exponent :: "real \<Rightarrow> int" where
  "double_exponent a = find_exponent 2045 1023 a"

text \<open>The double nearest to a real number: the magnitude is rounded to a multiple of the
  spacing at its exponent, and a result of \<open>2 powi 1024\<close> or more overflows to an
  infinity.\<close>

definition round_double :: "real \<Rightarrow> double" where
  "round_double r =
     (if r = 0 then Finite 0
      else
        let a = \<bar>r\<bar>;
            q = 2 powi (double_exponent a - 52);
            v = of_int (round_half_even (a / q)) * q
        in if 2 powi 1024 \<le> v then (if 0 < r then PlusInfinity else MinusInfinity)
           else Finite (if 0 < r then v else - v))"

fun dneg :: "double \<Rightarrow> double" where
  "dneg (Finite a) = Finite (- a)"
| "dneg PlusInfinity = MinusInfinity"
| "dneg MinusInfinity = PlusInfinity"
| "dneg NaN = NaN"

text \<open>The C operators \<^verbatim>\<open>+\<close> and \<^verbatim>\<open>-\<close> on doubles.\<close>

fun dadd :: "double \<Rightarrow> double \<Rightarrow> double" where
  "dadd (Finite a) (Finite b) = round_double (a + b)"
| "dadd NaN b = NaN"
| "dadd a NaN = NaN"
| "dadd PlusInfinity MinusInfinity = NaN"
| "dadd MinusInfinity PlusInfinity = NaN"
| "dadd PlusInfinity b = PlusInfinity"
| "dadd a PlusInfinity = PlusInfinity"
| "dadd MinusInfinity b = MinusInfinity"
| "dadd a MinusInfinity = MinusInfinity"

definition dsub :: "double \<Rightarrow> double \<Rightarrow> double" where
  "dsub a b = dadd a (dneg b)"

text \<open>The C operator \<^verbatim>\<open>==\<close> on doubles: a NaN equals nothing, itself included.
  \<^verbatim>\<open>a != b\<close> is its negation.\<close>

definition deq :: "double \<Rightarrow> double \<Rightarrow> bool" where
  "deq a b = (a \<noteq> NaN \<and> b \<noteq> NaN \<and> a = b)"

text \<open>The conversions of \<^verbatim>\<open>uint32_t\<close> and of \<^verbatim>\<open>int\<close> to \<^verbatim>\<open>double\<close>. Both are exact: the
  operand has at most 32 significant bits and a double has 53.\<close>

definition double_of_u32 :: "u32 \<Rightarrow> double" where
  "double_of_u32 n = Finite (real (unat n))"

definition double_of_int :: "int \<Rightarrow> double" where
  "double_of_int i = Finite (real_of_int i)"

subsection \<open>Data\<close>

datatype wlr_xdg_surface_v6_role =
    WLR_XDG_SURFACE_V6_ROLE_NONE
  | WLR_XDG_SURFACE_V6_ROLE_TOPLEVEL
  | WLR_XDG_SURFACE_V6_ROLE_POPUP

text \<open>Only \<^verbatim>\<open>ROOTS_XDG_SHELL_V6_VIEW\<close> occurs in the file; the other view types of the
  compositor are one constructor.\<close>

datatype roots_view_type = ROOTS_XDG_SHELL_V6_VIEW | ROOTS_OTHER_VIEW

record wlr_box =
  box_width :: int
  box_height :: int

text \<open>\<^verbatim>\<open>struct wlr_surface\<close>, of which the file reads \<^verbatim>\<open>current->width\<close> and
  \<^verbatim>\<open>current->height\<close>.\<close>

record wlr_surface_t =
  current_width :: int
  current_height :: int

record wlr_xdg_toplevel_v6_state =
  min_width :: u32
  min_height :: u32
  max_width :: u32
  max_height :: u32
  maximized :: bool
  fullscreen :: bool

record wlr_xdg_toplevel_v6 =
  current :: wlr_xdg_toplevel_v6_state
  client_pending :: wlr_xdg_toplevel_v6_state
  title :: string
  app_id :: string

text \<open>\<^verbatim>\<open>struct wlr_xdg_surface_v6\<close>. \<open>toplevel\<close> is the object behind the
  \<^verbatim>\<open>toplevel\<close> pointer, which the file follows only where the role is toplevel.
  \<open>popups\<close> lists, in list order, the \<^verbatim>\<open>base\<close> surface of each \<^verbatim>\<open>wlr_xdg_popup_v6\<close>;
  a \<^verbatim>\<open>wlr_xdg_popup_v6\<close> is identified with its \<^verbatim>\<open>base\<close> throughout.\<close>

record wlr_xdg_surface_v6 =
  role :: wlr_xdg_surface_v6_role
  wlr_surface_of :: ptr
  toplevel :: wlr_xdg_toplevel_v6
  popups :: "ptr list"
  mapped :: bool
  configure_serial :: u32
  geometry :: wlr_box

record pending_move_resize_t =
  update_x :: bool
  update_y :: bool
  pending_x :: double
  pending_y :: double
  pending_width :: u32
  pending_height :: u32

datatype view_fn =
  FN_activate | FN_resize | FN_move_resize | FN_maximize | FN_set_fullscreen
  | FN_close | FN_destroy

record roots_view =
  view_type :: roots_view_type
  view_x :: double
  view_y :: double
  view_width :: u32
  view_height :: u32
  pending_move_resize :: pending_move_resize_t
  wlr_surface :: "ptr option"
  xdg_surface_v6 :: "ptr option"
  roots_xdg_surface_v6 :: "ptr option"
  activate_fn :: "view_fn option"
  resize_fn :: "view_fn option"
  move_resize_fn :: "view_fn option"
  maximize_fn :: "view_fn option"
  set_fullscreen_fn :: "view_fn option"
  close_fn :: "view_fn option"
  destroy_fn :: "view_fn option"

text \<open>\<^verbatim>\<open>struct roots_xdg_surface_v6\<close> without its nine \<^verbatim>\<open>wl_listener\<close> members, which
  live in the registration list of the world.\<close>

record roots_xdg_surface_v6 =
  rs_view :: "ptr option"
  pending_move_resize_configure_serial :: u32

datatype child_destroy_fn = FN_popup_destroy | FN_other_destroy

record roots_view_child =
  child_view :: "ptr option"
  child_wlr_surface :: "ptr option"
  child_destroy :: "child_destroy_fn option"

record roots_xdg_popup_v6 =
  view_child :: roots_view_child
  wlr_popup :: "ptr option"

subsection \<open>Signals and listeners\<close>

text \<open>A signal is named by the object that owns it: the \<^verbatim>\<open>wlr_surface\<close> for
  \<^verbatim>\<open>events.commit\<close>, the xdg surface for its own events and for those of its toplevel.\<close>

datatype signal =
    Surface_commit ptr
  | Xdg_destroy ptr
  | Xdg_map ptr
  | Xdg_unmap ptr
  | Xdg_new_popup ptr
  | Toplevel_request_move ptr
  | Toplevel_request_resize ptr
  | Toplevel_request_maximize ptr
  | Toplevel_request_fullscreen ptr

datatype listener_member =
    L_surface_commit | L_destroy | L_map | L_unmap | L_new_popup
  | L_request_move | L_request_resize | L_request_maximize | L_request_fullscreen

text \<open>A \<^verbatim>\<open>wl_listener\<close> is named by the record that embeds it and the member it is.\<close>

datatype listener =
    Roots_surface_listener ptr listener_member
  | Popup_listener ptr listener_member

datatype handler =
    H_popup_handle_destroy | H_popup_handle_map | H_popup_handle_unmap
  | H_popup_handle_new_popup
  | H_handle_surface_commit | H_handle_destroy | H_handle_map | H_handle_unmap
  | H_handle_request_move | H_handle_request_resize | H_handle_request_maximize
  | H_handle_request_fullscreen | H_handle_new_popup

subsection \<open>Calls that leave the file\<close>

datatype call =
    Wlr_xdg_toplevel_v6_set_activated ptr bool
  | Wlr_xdg_toplevel_v6_set_size ptr u32 u32
  | Wlr_xdg_toplevel_v6_set_maximized ptr bool
  | Wlr_xdg_toplevel_v6_set_fullscreen ptr bool
  | Wlr_xdg_surface_v6_send_close ptr
  | Wlr_xdg_surface_v6_ping ptr
  | Wlr_log string
  | View_create ptr
  | View_child_init ptr "ptr option" ptr
  | View_child_finish ptr
  | View_damage_whole "ptr option"
  | View_apply_damage ptr
  | View_update_size ptr u32 u32
  | View_update_position ptr double double
  | View_maximize ptr bool
  | View_set_fullscreen ptr bool "ptr option"

record world =
  wlr_surfaces :: "ptr \<rightharpoonup> wlr_surface_t"
  xdg_surfaces :: "ptr \<rightharpoonup> wlr_xdg_surface_v6"
  views :: "ptr \<rightharpoonup> roots_view"
  roots_surfaces :: "ptr \<rightharpoonup> roots_xdg_surface_v6"
  roots_popups :: "ptr \<rightharpoonup> roots_xdg_popup_v6"
  listeners :: "(signal \<times> listener \<times> handler) list"
  calls :: "call list"

definition emit :: "call \<Rightarrow> world \<Rightarrow> world" where
  "emit c w = w\<lparr>calls := calls w @ [c]\<rparr>"

definition c_assert :: "bool \<Rightarrow> unit option" where
  "c_assert b = (if b then Some () else None)"

subsection \<open>The geometry constraint solver\<close>

text \<open>\<^verbatim>\<open>apply_size_constraints\<close>: the two destinations are returned as a pair.\<close>

definition apply_size_constraints ::
  "wlr_xdg_surface_v6 \<Rightarrow> u32 \<Rightarrow> u32 \<Rightarrow> u32 \<times> u32" where
  "apply_size_constraints surface width height =
     (let state = current (toplevel surface);
          dest_width =
            (if width < min_width state then min_width state
             else if max_width state > 0 \<and> width > max_width state then max_width state
             else width);
          dest_height =
            (if height < min_height state then min_height state
             else if max_height state > 0 \<and> height > max_height state then max_height state
             else height)
      in (dest_width, dest_height))"

subsection \<open>The collaborators\<close>

text \<open>
  The functions of this subsection are called by the file and defined elsewhere. Each is
  modelled by the entry it leaves in the trace and by the one effect the specification
  gives it.
\<close>

text \<open>Modelled from the spec: \<^verbatim>\<open>wlr_xdg_toplevel_v6_set_activated\<close> is missing; it
  "sets focus state in a configure request".\<close>

definition wlr_xdg_toplevel_v6_set_activated :: "ptr \<Rightarrow> bool \<Rightarrow> world \<Rightarrow> world" where
  "wlr_xdg_toplevel_v6_set_activated surface active w =
     emit (Wlr_xdg_toplevel_v6_set_activated surface active) w"

text \<open>Modelled from the spec: \<^verbatim>\<open>wlr_xdg_toplevel_v6_set_size\<close> is missing; it "issues a
  configure carrying the new serial", or "yields no serial". The serial it returns is
  the parameter \<open>serial\<close>, 0 for none.\<close>

definition wlr_xdg_toplevel_v6_set_size ::
  "ptr \<Rightarrow> u32 \<Rightarrow> u32 \<Rightarrow> u32 \<Rightarrow> world \<Rightarrow> u32 \<times> world" where
  "wlr_xdg_toplevel_v6_set_size surface width height serial w =
     (serial, emit (Wlr_xdg_toplevel_v6_set_size surface width height) w)"

text \<open>Modelled from the spec: \<^verbatim>\<open>wlr_xdg_toplevel_v6_set_maximized\<close> is missing; the
  request is "forwarded directly to a configure request".\<close>

definition wlr_xdg_toplevel_v6_set_maximized :: "ptr \<Rightarrow> bool \<Rightarrow> world \<Rightarrow> world" where
  "wlr_xdg_toplevel_v6_set_maximized surface flag w =
     emit (Wlr_xdg_toplevel_v6_set_maximized surface flag) w"

text \<open>Modelled from the spec: \<^verbatim>\<open>wlr_xdg_toplevel_v6_set_fullscreen\<close> is missing; the
  request is "forwarded directly to a configure request".\<close>

definition wlr_xdg_toplevel_v6_set_fullscreen :: "ptr \<Rightarrow> bool \<Rightarrow> world \<Rightarrow> world" where
  "wlr_xdg_toplevel_v6_set_fullscreen surface flag w =
     emit (Wlr_xdg_toplevel_v6_set_fullscreen surface flag) w"

text \<open>Modelled from the spec: \<^verbatim>\<open>wlr_xdg_surface_v6_send_close\<close> is missing; it sends the
  "close request" to the surface's client.\<close>

definition wlr_xdg_surface_v6_send_close :: "ptr \<Rightarrow> world \<Rightarrow> world" where
  "wlr_xdg_surface_v6_send_close surface w = emit (Wlr_xdg_surface_v6_send_close surface) w"

text \<open>Modelled from the spec: \<^verbatim>\<open>wlr_xdg_surface_v6_ping\<close> is missing and the
  specification is silent on it; it is the one message the call sends.\<close>

definition wlr_xdg_surface_v6_ping :: "ptr \<Rightarrow> world \<Rightarrow> world" where
  "wlr_xdg_surface_v6_ping surface w = emit (Wlr_xdg_surface_v6_ping surface) w"

text \<open>Modelled from the spec: \<^verbatim>\<open>wlr_log\<close> is missing and the specification is silent on
  it; it is the line the call writes to the log.\<close>

definition wlr_log :: "string \<Rightarrow> world \<Rightarrow> world" where
  "wlr_log msg w = emit (Wlr_log msg) w"

text \<open>Modelled from the spec: \<^verbatim>\<open>view_damage_whole\<close> is missing; it is the damage
  notification "mark view fully damaged".\<close>

definition view_damage_whole :: "ptr option \<Rightarrow> world \<Rightarrow> world" where
  "view_damage_whole view w = emit (View_damage_whole view) w"

text \<open>Modelled from the spec: \<^verbatim>\<open>view_apply_damage\<close> is missing; it is the damage
  notification "mark view damaged", made on every commit.\<close>

definition view_apply_damage :: "ptr \<Rightarrow> world \<Rightarrow> world" where
  "view_apply_damage view w = emit (View_apply_damage view) w"

text \<open>Modelled from the spec: \<^verbatim>\<open>view_update_size\<close> is missing; it is the "size-changed"
  propagation, which publishes the size to the View.\<close>

definition view_update_size :: "ptr \<Rightarrow> u32 \<Rightarrow> u32 \<Rightarrow> world \<Rightarrow> world" where
  "view_update_size v width height w =
     emit (View_update_size v width height)
       (case views w v of
          None \<Rightarrow> w
        | Some view \<Rightarrow>
            w\<lparr>views := (views w)(v \<mapsto> view\<lparr>view_width := width, view_height := height\<rparr>)\<rparr>)"

text \<open>Modelled from the spec: \<^verbatim>\<open>view_update_position\<close> is missing; with it "the position
  is applied": the View's position becomes \<open>(x, y)\<close>.\<close>

definition view_update_position :: "ptr \<Rightarrow> double \<Rightarrow> double \<Rightarrow> world \<Rightarrow> world" where
  "view_update_position v x y w =
     emit (View_update_position v x y)
       (case views w v of
          None \<Rightarrow> w
        | Some view \<Rightarrow> w\<lparr>views := (views w)(v \<mapsto> view\<lparr>view_x := x, view_y := y\<rparr>)\<rparr>)"

text \<open>Modelled from the spec: \<^verbatim>\<open>view_maximize\<close> is missing; it is an entry point of the
  generic window management, seen here as a call.\<close>

definition view_maximize :: "ptr \<Rightarrow> bool \<Rightarrow> world \<Rightarrow> world" where
  "view_maximize v flag w = emit (View_maximize v flag) w"

text \<open>Modelled from the spec: \<^verbatim>\<open>view_set_fullscreen\<close> is missing; it is an entry point
  of the generic window management, seen here as a call. The third argument is the
  output, \<open>None\<close> for \<^verbatim>\<open>NULL\<close>.\<close>

definition view_set_fullscreen :: "ptr \<Rightarrow> bool \<Rightarrow> ptr option \<Rightarrow> world \<Rightarrow> world" where
  "view_set_fullscreen v flag output w = emit (View_set_fullscreen v flag output) w"

text \<open>Modelled from the spec: \<^verbatim>\<open>view_create\<close> is missing; "create_view(desktop) -> View?,
  may fail (returns none) under resource exhaustion". \<open>created\<close> is what it returns: nothing,
  or the address of the new View with the contents the factory gave it.\<close>

definition view_create :: "ptr \<Rightarrow> (ptr \<times> roots_view) option \<Rightarrow> world \<Rightarrow> world" where
  "view_create desktop created w =
     emit (View_create desktop)
       (case created of
          None \<Rightarrow> w
        | Some (v, view) \<Rightarrow> w\<lparr>views := (views w)(v \<mapsto> view)\<rparr>)"

text \<open>Modelled from the spec: \<^verbatim>\<open>view_child_init\<close> is missing; a Popup is the "child of
  exactly one View" and "owns its own Surface": initialisation records both on the
  child.\<close>

definition view_child_init :: "ptr \<Rightarrow> ptr option \<Rightarrow> ptr \<Rightarrow> world \<Rightarrow> world" where
  "view_child_init p view surface w =
     emit (View_child_init p view surface)
       (case roots_popups w p of
          None \<Rightarrow> w
        | Some popup \<Rightarrow>
            w\<lparr>roots_popups := (roots_popups w)(p \<mapsto>
                 popup\<lparr>view_child := (view_child popup)
                   \<lparr>child_view := view, child_wlr_surface := Some surface\<rparr>\<rparr>)\<rparr>)"

text \<open>Modelled from the spec: \<^verbatim>\<open>view_child_finish\<close> is missing and the specification is
  silent on it; it is seen as a call. It is handed the embedded \<^verbatim>\<open>view_child\<close> only, not
  the popup record around it.\<close>

definition view_child_finish :: "ptr \<Rightarrow> world \<Rightarrow> world" where
  "view_child_finish p w = emit (View_child_finish p) w"

text \<open>
  \<^verbatim>\<open>wl_signal_add\<close> and \<^verbatim>\<open>wl_list_remove\<close> of libwayland. Adding appends the listener,
  with the \<^verbatim>\<open>notify\<close> function stored in it just before, to the signal's list. Removing
  unlinks the listener from the list it is in; on a link that is in no list the C
  function dereferences a null or stale pointer.
\<close>

definition wl_signal_add :: "signal \<Rightarrow> listener \<Rightarrow> handler \<Rightarrow> world \<Rightarrow> world" where
  "wl_signal_add sg l notify w = w\<lparr>listeners := listeners w @ [(sg, l, notify)]\<rparr>"

definition registered :: "listener \<Rightarrow> world \<Rightarrow> bool" where
  "registered l w = (l \<in> set (map (fst \<circ> snd) (listeners w)))"

definition wl_list_remove :: "listener \<Rightarrow> world \<Rightarrow> world option" where
  "wl_list_remove l w =
     (if registered l w
      then Some (w\<lparr>listeners := filter (\<lambda>r. fst (snd r) \<noteq> l) (listeners w)\<rparr>)
      else None)"

subsection \<open>Popups\<close>

text \<open>\<^verbatim>\<open>popup_destroy\<close>. The \<^verbatim>\<open>assert\<close> reads \<^verbatim>\<open>child->destroy\<close> before the test for
  \<^verbatim>\<open>NULL\<close>, so a null child stops the program at the first line.\<close>

definition popup_destroy :: "ptr option \<Rightarrow> world \<Rightarrow> world option" where
  "popup_destroy child w = do {
     p \<leftarrow> child;
     popup \<leftarrow> roots_popups w p;
     c_assert (child_destroy (view_child popup) = Some FN_popup_destroy);
     w \<leftarrow> wl_list_remove (Popup_listener p L_destroy) w;
     w \<leftarrow> wl_list_remove (Popup_listener p L_new_popup) w;
     let w = view_child_finish p w;
     Some (w\<lparr>roots_popups := (roots_popups w)(p := None)\<rparr>)
   }"

definition popup_handle_destroy :: "ptr \<Rightarrow> world \<Rightarrow> world option" where
  "popup_handle_destroy p w = popup_destroy (Some p) w"

definition popup_handle_map :: "ptr \<Rightarrow> world \<Rightarrow> world option" where
  "popup_handle_map p w = do {
     popup \<leftarrow> roots_popups w p;
     Some (view_damage_whole (child_view (view_child popup)) w)
   }"

definition popup_handle_unmap :: "ptr \<Rightarrow> world \<Rightarrow> world option" where
  "popup_handle_unmap p w = do {
     popup \<leftarrow> roots_popups w p;
     Some (view_damage_whole (child_view (view_child popup)) w)
   }"

text \<open>\<^verbatim>\<open>popup_create\<close>. \<open>alloc\<close> is what \<^verbatim>\<open>calloc\<close> returns: \<open>None\<close> for \<^verbatim>\<open>NULL\<close>, else the
  address of the zeroed record. The result is the returned pointer and the new world.\<close>

definition popup_create ::
  "ptr option \<Rightarrow> ptr \<Rightarrow> ptr option \<Rightarrow> world \<Rightarrow> (ptr option \<times> world) option" where
  "popup_create view wlr_popup_arg alloc w =
     (case alloc of
        None \<Rightarrow> Some (None, w)
      | Some p \<Rightarrow> do {
          base \<leftarrow> xdg_surfaces w wlr_popup_arg;
          let popup = \<lparr>view_child =
                         \<lparr>child_view = None, child_wlr_surface = None,
                          child_destroy = Some FN_popup_destroy\<rparr>,
                       wlr_popup = Some wlr_popup_arg\<rparr>;
          let w = w\<lparr>roots_popups := (roots_popups w)(p \<mapsto> popup)\<rparr>;
          let w = view_child_init p view (wlr_surface_of base) w;
          let w = wl_signal_add (Xdg_destroy wlr_popup_arg) (Popup_listener p L_destroy)
                    H_popup_handle_destroy w;
          let w = wl_signal_add (Xdg_map wlr_popup_arg) (Popup_listener p L_map)
                    H_popup_handle_map w;
          let w = wl_signal_add (Xdg_unmap wlr_popup_arg) (Popup_listener p L_unmap)
                    H_popup_handle_unmap w;
          let w = wl_signal_add (Xdg_new_popup wlr_popup_arg) (Popup_listener p L_new_popup)
                    H_popup_handle_new_popup w;
          Some (Some p, w)
        })"

definition popup_handle_new_popup :: "ptr \<Rightarrow> ptr \<Rightarrow> ptr option \<Rightarrow> world \<Rightarrow> world option" where
  "popup_handle_new_popup p wlr_popup_arg alloc w = do {
     popup \<leftarrow> roots_popups w p;
     map_option snd (popup_create (child_view (view_child popup)) wlr_popup_arg alloc w)
   }"

subsection \<open>The view operations\<close>

definition get_size :: "ptr \<Rightarrow> world \<Rightarrow> wlr_box option" where
  "get_size v w = do {
     view \<leftarrow> views w v;
     c_assert (view_type view = ROOTS_XDG_SHELL_V6_VIEW);
     sp \<leftarrow> xdg_surface_v6 view;
     surface \<leftarrow> xdg_surfaces w sp;
     if box_width (geometry surface) > 0 \<and> box_height (geometry surface) > 0
     then Some \<lparr>box_width = box_width (geometry surface),
                box_height = box_height (geometry surface)\<rparr>
     else (case wlr_surface view of
             Some s \<Rightarrow> do {
               committed \<leftarrow> wlr_surfaces w s;
               Some \<lparr>box_width = current_width committed,
                     box_height = current_height committed\<rparr>
             }
           | None \<Rightarrow> Some \<lparr>box_width = 0, box_height = 0\<rparr>)
   }"

definition activate :: "ptr \<Rightarrow> bool \<Rightarrow> world \<Rightarrow> world option" where
  "activate v active w = do {
     view \<leftarrow> views w v;
     c_assert (view_type view = ROOTS_XDG_SHELL_V6_VIEW);
     sp \<leftarrow> xdg_surface_v6 view;
     surface \<leftarrow> xdg_surfaces w sp;
     if role surface = WLR_XDG_SURFACE_V6_ROLE_TOPLEVEL
     then Some (wlr_xdg_toplevel_v6_set_activated sp active w)
     else Some w
   }"

definition resize :: "ptr \<Rightarrow> u32 \<Rightarrow> u32 \<Rightarrow> u32 \<Rightarrow> world \<Rightarrow> world option" where
  "resize v width height serial w = do {
     view \<leftarrow> views w v;
     c_assert (view_type view = ROOTS_XDG_SHELL_V6_VIEW);
     sp \<leftarrow> xdg_surface_v6 view;
     surface \<leftarrow> xdg_surfaces w sp;
     if role surface \<noteq> WLR_XDG_SURFACE_V6_ROLE_TOPLEVEL then Some w
     else do {
       let (constrained_width, constrained_height) =
             apply_size_constraints surface width height;
       Some (snd (wlr_xdg_toplevel_v6_set_size sp constrained_width constrained_height
                    serial w))
     }
   }"

text \<open>\<^verbatim>\<open>move_resize\<close>. \<open>set_size_serial\<close> is the serial \<^verbatim>\<open>wlr_xdg_toplevel_v6_set_size\<close>
  returns to this call. In \<^verbatim>\<open>x + width - constrained_width\<close> the two \<^verbatim>\<open>uint32_t\<close> operands
  are converted to \<^verbatim>\<open>double\<close> and the sum is rounded before the difference is taken.\<close>

definition move_resize ::
  "ptr \<Rightarrow> double \<Rightarrow> double \<Rightarrow> u32 \<Rightarrow> u32 \<Rightarrow> u32 \<Rightarrow> world \<Rightarrow> world option" where
  "move_resize v x y width height set_size_serial w = do {
     view \<leftarrow> views w v;
     c_assert (view_type view = ROOTS_XDG_SHELL_V6_VIEW);
     let roots_surface_ptr = roots_xdg_surface_v6 view;
     sp \<leftarrow> xdg_surface_v6 view;
     surface \<leftarrow> xdg_surfaces w sp;
     if role surface \<noteq> WLR_XDG_SURFACE_V6_ROLE_TOPLEVEL then Some w
     else do {
       let upd_x = (\<not> deq x (view_x view));
       let upd_y = (\<not> deq y (view_y view));
       let (constrained_width, constrained_height) =
             apply_size_constraints surface width height;
       let x = (if upd_x
                then dsub (dadd x (double_of_u32 width)) (double_of_u32 constrained_width)
                else x);
       let y = (if upd_y
                then dsub (dadd y (double_of_u32 height)) (double_of_u32 constrained_height)
                else y);
       let w = w\<lparr>views := (views w)(v \<mapsto> view\<lparr>pending_move_resize :=
                    \<lparr>update_x = upd_x, update_y = upd_y, pending_x = x, pending_y = y,
                     pending_width = constrained_width,
                     pending_height = constrained_height\<rparr>\<rparr>)\<rparr>;
       let (serial, w) =
             wlr_xdg_toplevel_v6_set_size sp constrained_width constrained_height
               set_size_serial w;
       rs \<leftarrow> roots_surface_ptr;
       roots_surface \<leftarrow> roots_surfaces w rs;
       if serial > 0
       then Some (w\<lparr>roots_surfaces := (roots_surfaces w)(rs \<mapsto>
                      roots_surface\<lparr>pending_move_resize_configure_serial := serial\<rparr>)\<rparr>)
       else if pending_move_resize_configure_serial roots_surface = 0
       then Some (view_update_position v x y w)
       else Some w
     }
   }"

definition maximize :: "ptr \<Rightarrow> bool \<Rightarrow> world \<Rightarrow> world option" where
  "maximize v flag w = do {
     view \<leftarrow> views w v;
     c_assert (view_type view = ROOTS_XDG_SHELL_V6_VIEW);
     sp \<leftarrow> xdg_surface_v6 view;
     surface \<leftarrow> xdg_surfaces w sp;
     if role surface \<noteq> WLR_XDG_SURFACE_V6_ROLE_TOPLEVEL then Some w
     else Some (wlr_xdg_toplevel_v6_set_maximized sp flag w)
   }"

definition set_fullscreen :: "ptr \<Rightarrow> bool \<Rightarrow> world \<Rightarrow> world option" where
  "set_fullscreen v flag w = do {
     view \<leftarrow> views w v;
     c_assert (view_type view = ROOTS_XDG_SHELL_V6_VIEW);
     sp \<leftarrow> xdg_surface_v6 view;
     surface \<leftarrow> xdg_surfaces w sp;
     if role surface \<noteq> WLR_XDG_SURFACE_V6_ROLE_TOPLEVEL then Some w
     else Some (wlr_xdg_toplevel_v6_set_fullscreen sp flag w)
   }"

text \<open>\<^verbatim>\<open>close\<close>: the loop over \<^verbatim>\<open>surface->popups\<close> is a fold in list order.\<close>

definition close :: "ptr \<Rightarrow> world \<Rightarrow> world option" where
  "close v w = do {
     view \<leftarrow> views w v;
     c_assert (view_type view = ROOTS_XDG_SHELL_V6_VIEW);
     sp \<leftarrow> xdg_surface_v6 view;
     surface \<leftarrow> xdg_surfaces w sp;
     let w = fold wlr_xdg_surface_v6_send_close (popups surface) w;
     Some (wlr_xdg_surface_v6_send_close sp w)
   }"

definition destroy :: "ptr \<Rightarrow> world \<Rightarrow> world option" where
  "destroy v w = do {
     view \<leftarrow> views w v;
     c_assert (view_type view = ROOTS_XDG_SHELL_V6_VIEW);
     rs \<leftarrow> roots_xdg_surface_v6 view;
     w \<leftarrow> wl_list_remove (Roots_surface_listener rs L_surface_commit) w;
     w \<leftarrow> wl_list_remove (Roots_surface_listener rs L_destroy) w;
     w \<leftarrow> wl_list_remove (Roots_surface_listener rs L_new_popup) w;
     w \<leftarrow> wl_list_remove (Roots_surface_listener rs L_map) w;
     w \<leftarrow> wl_list_remove (Roots_surface_listener rs L_unmap) w;
     w \<leftarrow> wl_list_remove (Roots_surface_listener rs L_request_move) w;
     w \<leftarrow> wl_list_remove (Roots_surface_listener rs L_request_resize) w;
     w \<leftarrow> wl_list_remove (Roots_surface_listener rs L_request_maximize) w;
     w \<leftarrow> wl_list_remove (Roots_surface_listener rs L_request_fullscreen) w;
     Some (w\<lparr>roots_surfaces := (roots_surfaces w)(rs := None)\<rparr>)
   }"

subsection \<open>The event handlers\<close>

text \<open>A handler receives the listener that fired; \<^verbatim>\<open>wl_container_of\<close> turns it into the
  record that embeds it, which is the handler's first argument here.\<close>

definition handle_surface_commit :: "ptr \<Rightarrow> world \<Rightarrow> world option" where
  "handle_surface_commit rs w = do {
     roots_surface \<leftarrow> roots_surfaces w rs;
     v \<leftarrow> rs_view roots_surface;
     view \<leftarrow> views w v;
     sp \<leftarrow> xdg_surface_v6 view;
     surface \<leftarrow> xdg_surfaces w sp;
     if \<not> mapped surface then Some w
     else do {
       let w = view_apply_damage v w;
       size \<leftarrow> get_size v w;
       let w = view_update_size v (word_of_int (box_width size))
                 (word_of_int (box_height size)) w;
       let pending_serial = pending_move_resize_configure_serial roots_surface;
       if pending_serial > 0 \<and> pending_serial \<ge> configure_serial surface
       then do {
         view \<leftarrow> views w v;
         let x = view_x view;
         let y = view_y view;
         let x = (if update_x (pending_move_resize view)
                  then dsub (dadd (pending_x (pending_move_resize view))
                                  (double_of_u32 (pending_width (pending_move_resize view))))
                            (double_of_int (box_width size))
                  else x);
         let y = (if update_y (pending_move_resize view)
                  then dsub (dadd (pending_y (pending_move_resize view))
                                  (double_of_u32 (pending_height (pending_move_resize view))))
                            (double_of_int (box_height size))
                  else y);
         let w = view_update_position v x y w;
         if pending_serial = configure_serial surface
         then Some (w\<lparr>roots_surfaces := (roots_surfaces w)(rs \<mapsto>
                        roots_surface\<lparr>pending_move_resize_configure_serial := 0\<rparr>)\<rparr>)
         else Some w
       }
       else Some w
     }
   }"

definition handle_new_popup :: "ptr \<Rightarrow> ptr \<Rightarrow> ptr option \<Rightarrow> world \<Rightarrow> world option" where
  "handle_new_popup rs wlr_popup_arg alloc w = do {
     roots_xdg_surface \<leftarrow> roots_surfaces w rs;
     map_option snd (popup_create (rs_view roots_xdg_surface) wlr_popup_arg alloc w)
   }"

text \<open>\<^verbatim>\<open>handle_xdg_shell_v6_surface\<close>: \<open>desktop\<close> is the desktop that embeds the listener,
  \<open>sp\<close> the new surface, \<open>alloc\<close> what \<^verbatim>\<open>calloc\<close> returns and \<open>created\<close> what
  \<^verbatim>\<open>view_create\<close> returns.\<close>

definition handle_xdg_shell_v6_surface ::
  "ptr \<Rightarrow> ptr \<Rightarrow> ptr option \<Rightarrow> (ptr \<times> roots_view) option \<Rightarrow> world \<Rightarrow> world option" where
  "handle_xdg_shell_v6_surface desktop sp alloc created w = do {
     surface \<leftarrow> xdg_surfaces w sp;
     c_assert (role surface \<noteq> WLR_XDG_SURFACE_V6_ROLE_NONE);
     if role surface = WLR_XDG_SURFACE_V6_ROLE_POPUP
     then Some (wlr_log ''new xdg popup'' w)
     else do {
       let w = wlr_log (''new xdg toplevel: title='' @ title (toplevel surface)
                          @ '', app_id='' @ app_id (toplevel surface)) w;
       let w = wlr_xdg_surface_v6_ping sp w;
       case alloc of
         None \<Rightarrow> Some w
       | Some rs \<Rightarrow> do {
           let w = w\<lparr>roots_surfaces := (roots_surfaces w)(rs \<mapsto>
                        \<lparr>rs_view = None, pending_move_resize_configure_serial = 0\<rparr>)\<rparr>;
           let w = wl_signal_add (Surface_commit (wlr_surface_of surface))
                     (Roots_surface_listener rs L_surface_commit) H_handle_surface_commit w;
           let w = wl_signal_add (Xdg_destroy sp)
                     (Roots_surface_listener rs L_destroy) H_handle_destroy w;
           let w = wl_signal_add (Xdg_map sp)
                     (Roots_surface_listener rs L_map) H_handle_map w;
           let w = wl_signal_add (Xdg_unmap sp)
                     (Roots_surface_listener rs L_unmap) H_handle_unmap w;
           let w = wl_signal_add (Toplevel_request_move sp)
                     (Roots_surface_listener rs L_request_move) H_handle_request_move w;
           let w = wl_signal_add (Toplevel_request_resize sp)
                     (Roots_surface_listener rs L_request_resize) H_handle_request_resize w;
           let w = wl_signal_add (Toplevel_request_maximize sp)
                     (Roots_surface_listener rs L_request_maximize)
                     H_handle_request_maximize w;
           let w = wl_signal_add (Toplevel_request_fullscreen sp)
                     (Roots_surface_listener rs L_request_fullscreen)
                     H_handle_request_fullscreen w;
           let w = wl_signal_add (Xdg_new_popup sp)
                     (Roots_surface_listener rs L_new_popup) H_handle_new_popup w;
           let w = view_create desktop created w;
           case created of
             None \<Rightarrow> Some (w\<lparr>roots_surfaces := (roots_surfaces w)(rs := None)\<rparr>)
           | Some (v, fresh) \<Rightarrow> do {
               let view = fresh\<lparr>view_type := ROOTS_XDG_SHELL_V6_VIEW,
                                xdg_surface_v6 := Some sp,
                                roots_xdg_surface_v6 := Some rs,
                                activate_fn := Some FN_activate,
                                resize_fn := Some FN_resize,
                                move_resize_fn := Some FN_move_resize,
                                maximize_fn := Some FN_maximize,
                                set_fullscreen_fn := Some FN_set_fullscreen,
                                close_fn := Some FN_close,
                                destroy_fn := Some FN_destroy\<rparr>;
               let w = w\<lparr>views := (views w)(v \<mapsto> view),
                         roots_surfaces := (roots_surfaces w)(rs \<mapsto>
                           \<lparr>rs_view = Some v, pending_move_resize_configure_serial = 0\<rparr>)\<rparr>;
               let w = (if maximized (client_pending (toplevel surface))
                        then view_maximize v True w else w);
               let w = (if fullscreen (client_pending (toplevel surface))
                        then view_set_fullscreen v True None w else w);
               Some w
             }
         }
     }
   }"

subsection \<open>The client's half of a configure cycle\<close>

text \<open>Modelled from the spec: the code that receives the client's acknowledgement is
  missing. When the client "acknowledges" a configure and commits, the surface's committed
  configure serial becomes the acknowledged one and its declared geometry the committed
  size.\<close>

definition client_ack_commit :: "ptr \<Rightarrow> u32 \<Rightarrow> int \<Rightarrow> int \<Rightarrow> world \<Rightarrow> world" where
  "client_ack_commit sp serial width height w =
     (case xdg_surfaces w sp of
        None \<Rightarrow> w
      | Some surface \<Rightarrow>
          w\<lparr>xdg_surfaces := (xdg_surfaces w)(sp \<mapsto>
               surface\<lparr>configure_serial := serial,
                        geometry := \<lparr>box_width = width, box_height = height\<rparr>\<rparr>)\<rparr>)"

subsection \<open>Observations and scenarios\<close>

definition position_of :: "roots_view \<Rightarrow> double \<times> double" where
  "position_of view = (view_x view, view_y view)"

definition view_position :: "ptr \<Rightarrow> world \<Rightarrow> (double \<times> double) option" where
  "view_position v w = map_option position_of (views w v)"

definition pending_of :: "ptr \<Rightarrow> world \<Rightarrow> pending_move_resize_t option" where
  "pending_of v w = map_option pending_move_resize (views w v)"

definition ticket_of :: "ptr \<Rightarrow> world \<Rightarrow> u32 option" where
  "ticket_of rs w = map_option pending_move_resize_configure_serial (roots_surfaces w rs)"

definition popup_parent :: "ptr \<Rightarrow> world \<Rightarrow> ptr option option" where
  "popup_parent p w = map_option (child_view \<circ> view_child) (roots_popups w p)"

definition registered_listeners :: "world \<Rightarrow> listener list" where
  "registered_listeners w = map (fst \<circ> snd) (listeners w)"

text \<open>A popup is created and then destroyed through its own \<^verbatim>\<open>destroy\<close> callback.\<close>

definition popup_create_then_destroy ::
  "ptr option \<Rightarrow> ptr \<Rightarrow> ptr option \<Rightarrow> world \<Rightarrow> world option" where
  "popup_create_then_destroy view wlr_popup_arg alloc w = do {
     (p, w) \<leftarrow> popup_create view wlr_popup_arg alloc w;
     popup_destroy p w
   }"

text \<open>A toplevel spawns a popup, and that popup spawns a second one.\<close>

definition nested_popup_scenario ::
  "ptr \<Rightarrow> ptr \<Rightarrow> ptr \<Rightarrow> ptr \<Rightarrow> ptr \<Rightarrow> world \<Rightarrow> world option" where
  "nested_popup_scenario rs first_base p second_base q w = do {
     w \<leftarrow> handle_new_popup rs first_base (Some p) w;
     popup_handle_new_popup p second_base (Some q) w
   }"

text \<open>\<^verbatim>\<open>move_resize\<close>, then the client acknowledges the configure and commits at the
  given size, then the commit handler runs.\<close>

definition move_resize_then_commit ::
  "ptr \<Rightarrow> ptr \<Rightarrow> ptr \<Rightarrow> double \<Rightarrow> double \<Rightarrow> u32 \<Rightarrow> u32 \<Rightarrow> u32 \<Rightarrow> int \<Rightarrow> int \<Rightarrow> world
     \<Rightarrow> world option" where
  "move_resize_then_commit v rs sp x y width height serial committed_width committed_height w = do {
     w \<leftarrow> move_resize v x y width height serial w;
     handle_surface_commit rs (client_ack_commit sp serial committed_width committed_height w)
   }"

subsection \<open>Concrete worlds\<close>

text \<open>One toplevel at address 2 with a minimum width of 300, its View at 1 and its
  per-surface record at 3; a popup-role surface at 5.\<close>

definition demo_state :: wlr_xdg_toplevel_v6_state where
  "demo_state = \<lparr>min_width = 300, min_height = 0, max_width = 0, max_height = 0,
                  maximized = False, fullscreen = False\<rparr>"

definition demo_surface :: wlr_xdg_surface_v6 where
  "demo_surface =
     \<lparr>role = WLR_XDG_SURFACE_V6_ROLE_TOPLEVEL, wlr_surface_of = 4,
      toplevel = \<lparr>current = demo_state, client_pending = demo_state,
                  title = ''term'', app_id = ''demo''\<rparr>,
      popups = [5], mapped = True, configure_serial = 0,
      geometry = \<lparr>box_width = 0, box_height = 0\<rparr>\<rparr>"

definition demo_popup_surface :: wlr_xdg_surface_v6 where
  "demo_popup_surface = demo_surface\<lparr>role := WLR_XDG_SURFACE_V6_ROLE_POPUP,
                                       wlr_surface_of := 7, popups := []\<rparr>"

definition blank_view :: roots_view where
  "blank_view =
     \<lparr>view_type = ROOTS_OTHER_VIEW, view_x = Finite 0, view_y = Finite 0,
      view_width = 0, view_height = 0,
      pending_move_resize =
        \<lparr>update_x = False, update_y = False, pending_x = Finite 0, pending_y = Finite 0,
         pending_width = 0, pending_height = 0\<rparr>,
      wlr_surface = None, xdg_surface_v6 = None, roots_xdg_surface_v6 = None,
      activate_fn = None, resize_fn = None, move_resize_fn = None, maximize_fn = None,
      set_fullscreen_fn = None, close_fn = None, destroy_fn = None\<rparr>"

definition demo_view :: roots_view where
  "demo_view = blank_view\<lparr>view_type := ROOTS_XDG_SHELL_V6_VIEW, wlr_surface := Some 4,
                          xdg_surface_v6 := Some 2, roots_xdg_surface_v6 := Some 3\<rparr>"

definition fresh_world :: world where
  "fresh_world =
     \<lparr>wlr_surfaces = [4 \<mapsto> \<lparr>current_width = 0, current_height = 0\<rparr>,
                      7 \<mapsto> \<lparr>current_width = 0, current_height = 0\<rparr>],
      xdg_surfaces = [2 \<mapsto> demo_surface, 5 \<mapsto> demo_popup_surface],
      views = Map.empty, roots_surfaces = Map.empty, roots_popups = Map.empty,
      listeners = [], calls = []\<rparr>"

definition demo_world :: world where
  "demo_world = fresh_world\<lparr>views := [1 \<mapsto> demo_view],
     roots_surfaces := [3 \<mapsto> \<lparr>rs_view = Some 1, pending_move_resize_configure_serial = 0\<rparr>]\<rparr>"

text \<open>A ticket for serial \<open>expected\<close> is open, the client has acknowledged \<open>acked\<close> and
  committed 120 by 50; the pending record asks for position (5, 6) at size 100 by 50,
  both axes anchored.\<close>

definition ticket_world :: "u32 \<Rightarrow> u32 \<Rightarrow> world" where
  "ticket_world expected acked = demo_world
     \<lparr>xdg_surfaces := [2 \<mapsto> demo_surface\<lparr>configure_serial := acked,
                           geometry := \<lparr>box_width = 120, box_height = 50\<rparr>\<rparr>],
      views := [1 \<mapsto> demo_view\<lparr>pending_move_resize :=
                 \<lparr>update_x = True, update_y = True,
                  pending_x = Finite 5, pending_y = Finite 6,
                  pending_width = 100, pending_height = 50\<rparr>\<rparr>],
      roots_surfaces :=
        [3 \<mapsto> \<lparr>rs_view = Some 1, pending_move_resize_configure_serial = expected\<rparr>]\<rparr>"

text \<open>The double nearest to 0.3, and the double \<^verbatim>\<open>(0.3 + 50) - 50\<close>, which is
  0.29999999999999716 to 17 digits.\<close>

definition three_tenths :: real where
  "three_tenths = 5404319552844595 / 18014398509481984"

definition near_three_tenths :: real where
  "near_three_tenths = 21110623253299 / 70368744177664"

text \<open>A ticket for serial 3 is open and the client has acknowledged serial 3 and
  committed 300 by 50; the pending record asks for x = 0.29999999999999716 at size 100 by
  50, the horizontal axis anchored.\<close>

definition fractional_ticket_world :: world where
  "fractional_ticket_world = demo_world
     \<lparr>xdg_surfaces := [2 \<mapsto> demo_surface\<lparr>configure_serial := 3,
                           geometry := \<lparr>box_width = 300, box_height = 50\<rparr>\<rparr>],
      views := [1 \<mapsto> demo_view\<lparr>pending_move_resize :=
                 \<lparr>update_x = True, update_y = False,
                  pending_x = Finite near_three_tenths, pending_y = Finite 0,
                  pending_width = 100, pending_height = 50\<rparr>\<rparr>],
      roots_surfaces :=
        [3 \<mapsto> \<lparr>rs_view = Some 1, pending_move_resize_configure_serial = 3\<rparr>]\<rparr>"

text \<open>A View at 8 whose surface is the popup-role surface 5, which itself lists a popup
  with base 2.\<close>

definition popup_role_world :: world where
  "popup_role_world = fresh_world
     \<lparr>xdg_surfaces := [5 \<mapsto> demo_popup_surface\<lparr>popups := [2]\<rparr>, 2 \<mapsto> demo_surface],
      views := [8 \<mapsto> demo_view\<lparr>xdg_surface_v6 := Some 5\<rparr>],
      roots_surfaces := [3 \<mapsto> \<lparr>rs_view = Some 8, pending_move_resize_configure_serial = 0\<rparr>]\<rparr>"

text \<open>A new toplevel whose client has already asked for maximized and fullscreen.\<close>

definition eager_world :: world where
  "eager_world = fresh_world
     \<lparr>xdg_surfaces := [2 \<mapsto> demo_surface\<lparr>toplevel := (toplevel demo_surface)
          \<lparr>client_pending := demo_state\<lparr>maximized := True, fullscreen := True\<rparr>\<rparr>\<rparr>]\<rparr>"

text \<open>A toplevel whose declared minimum width, 300, exceeds its declared maximum, 100.\<close>

definition inverted_surface :: wlr_xdg_surface_v6 where
  "inverted_surface = demo_surface\<lparr>toplevel := (toplevel demo_surface)
     \<lparr>current := demo_state\<lparr>max_width := 100\<rparr>\<rparr>\<rparr>"

text \<open>A toplevel with bounds 100 to 500 on both axes.\<close>

definition bounded_surface :: wlr_xdg_surface_v6 where
  "bounded_surface = demo_surface\<lparr>toplevel := (toplevel demo_surface)
     \<lparr>current := \<lparr>min_width = 100, min_height = 100, max_width = 500, max_height = 500,
                   maximized = False, fullscreen = False\<rparr>\<rparr>\<rparr>"

text \<open>The View of the demo world owns one popup, at 6, on the popup-role surface 5.\<close>

definition one_popup_world :: world where
  "one_popup_world = demo_world
     \<lparr>roots_popups := [6 \<mapsto> \<lparr>view_child = \<lparr>child_view = Some 1, child_wlr_surface = Some 7,
                                            child_destroy = Some FN_popup_destroy\<rparr>,
                              wlr_popup = Some 5\<rparr>]\<rparr>"

text \<open>The constraint function applied to its own output.\<close>

definition constrain_twice :: "wlr_xdg_surface_v6 \<Rightarrow> u32 \<Rightarrow> u32 \<Rightarrow> u32 \<times> u32" where
  "constrain_twice surface width height =
     (let (w1, h1) = apply_size_constraints surface width height
      in apply_size_constraints surface w1 h1)"

text \<open>A toplevel is wired up and its View is destroyed again.\<close>

definition surface_create_then_destroy ::
  "ptr \<Rightarrow> ptr \<Rightarrow> ptr \<Rightarrow> ptr \<Rightarrow> roots_view \<Rightarrow> world \<Rightarrow> world option" where
  "surface_create_then_destroy desktop sp rs v fresh w = do {
     w \<leftarrow> handle_xdg_shell_v6_surface desktop sp (Some rs) (Some (v, fresh)) w;
     destroy v w
   }"

text \<open>A run of nested new-popup events: each triple names the popup whose listener
  fires, the new popup's base surface and the address \<^verbatim>\<open>calloc\<close> returns.\<close>

fun spawn_all :: "(ptr \<times> ptr \<times> ptr) list \<Rightarrow> world \<Rightarrow> world option" where
  "spawn_all [] w = Some w"
| "spawn_all ((p, base, q) # events) w = do {
     w \<leftarrow> popup_handle_new_popup p base (Some q) w;
     spawn_all events w
   }"

text \<open>Every popup record of the world hangs on the View \<open>view\<close>.\<close>

definition flat_on :: "ptr option \<Rightarrow> world \<Rightarrow> bool" where
  "flat_on view w =
     (\<forall>p popup. roots_popups w p = Some popup \<longrightarrow> child_view (view_child popup) = view)"

section \<open>Properties\<close>

subsection \<open>Double-precision arithmetic\<close>

lemma find_exponent_eq:
  "e0 - int n \<le> e \<Longrightarrow> e \<le> e0 \<Longrightarrow> 2 powi e \<le> a \<Longrightarrow> a < 2 powi (e + 1)
   \<Longrightarrow> find_exponent n e0 a = e"
proof (induction n arbitrary: e0)
  case 0
  then show ?case by simp
next
  case (Suc n)
  show ?case
  proof (cases "2 powi e0 \<le> a")
    case True
    with Suc.prems(4) have "(2::real) powi e0 < 2 powi (e + 1)" by simp
    then have "e0 < e + 1"
      by (meson linorder_not_less one_le_numeral power_int_increasing)
    with Suc.prems(2) True show ?thesis by simp
  next
    case False
    with Suc.prems(3) have "e \<noteq> e0" by auto
    with Suc.prems(1,2) have "e0 - 1 - int n \<le> e" "e \<le> e0 - 1" by simp_all
    from Suc.IH [OF this Suc.prems(3,4)] False show ?thesis by simp
  qed
qed

lemma double_exponent_eq:
  assumes "- 1022 \<le> e" and "e \<le> 1023" and "2 powi e \<le> a" and "a < 2 powi (e + 1)"
  shows "double_exponent a = e"
  unfolding double_exponent_def using assms by (intro find_exponent_eq) simp_all

lemma round_half_even_of_int: "round_half_even (of_int n) = n"
  by (simp add: round_half_even_def)

text \<open>The rounding of a number whose exponent is known.\<close>

lemma round_double_at:
  assumes "r \<noteq> 0" and "- 1022 \<le> e" and "e \<le> 1023"
    and "2 powi e \<le> \<bar>r\<bar>" and "\<bar>r\<bar> < 2 powi (e + 1)"
    and "of_int (round_half_even (\<bar>r\<bar> / 2 powi (e - 52))) * 2 powi (e - 52) = v"
    and "v < 2 powi 1024"
  shows "round_double r = Finite (if 0 < r then v else - v)"
proof -
  have e: "double_exponent \<bar>r\<bar> = e"
    by (rule double_exponent_eq [OF assms(2-5)])
  show ?thesis
    unfolding round_double_def Let_def e assms(6) using assms(1,7) by simp
qed

text \<open>Every integer below \<open>2 ^ 53\<close> in absolute value is a double.\<close>

lemma round_double_of_int:
  assumes "\<bar>n\<bar> < 2 ^ 53"
  shows "round_double (of_int n) = Finite (of_int n)"
proof (cases "n = 0")
  case True
  then show ?thesis by (simp add: round_double_def)
next
  case False
  define m where "m = nat \<bar>n\<bar>"
  have m: "1 \<le> m" "m < 2 ^ 53" "int m = \<bar>n\<bar>"
    using False assms by (simp_all add: m_def nat_less_iff)
  from ex_power_ivl1 [of 2 m] m(1) obtain k where k: "2 ^ k \<le> m" "m < 2 ^ (k + 1)"
    by auto
  from k(1) m(2) have "(2::nat) ^ k < 2 ^ 53" by (rule le_less_trans)
  then have k53: "k < 53" by (rule power_less_imp_less_exp [rotated]) simp
  let ?a = "\<bar>real_of_int n\<bar>"
  have a: "?a = real m" using m(3) by (simp flip: of_int_abs)
  have lo: "2 powi int k \<le> ?a"
    unfolding a power_int_of_nat using k(1)
    by (metis of_nat_le_iff of_nat_numeral of_nat_power)
  have hi: "?a < 2 powi (int k + 1)"
  proof -
    have "real m < 2 ^ (k + 1)"
      using k(2) by (metis of_nat_less_iff of_nat_numeral of_nat_power)
    moreover have "int k + 1 = int (k + 1)" by simp
    ultimately show ?thesis unfolding a by (simp only: power_int_of_nat)
  qed
  have e: "double_exponent ?a = int k"
    using k53 by (intro double_exponent_eq lo hi) simp_all
  have q: "(2::real) powi (int k - 52) = 1 / 2 ^ (52 - k)"
    using k53 by (simp add: power_int_def nat_diff_distrib' inverse_eq_divide power_one_over)
  have r: "round_half_even (real m * 2 ^ (52 - k)) = int (m * 2 ^ (52 - k))"
    using round_half_even_of_int [of "int (m * 2 ^ (52 - k))"] by simp
  have v: "of_int (round_half_even (?a / 2 powi (int k - 52))) * 2 powi (int k - 52) = ?a"
    unfolding q a by (simp add: r)
  have small: "?a < 2 powi 1024"
  proof -
    have "real m < 2 ^ 53"
      using m(2) by (metis of_nat_less_iff of_nat_numeral of_nat_power)
    also have "(2::real) ^ 53 \<le> 2 ^ 1024" by (rule power_increasing) simp_all
    finally show ?thesis unfolding a by (simp only: power_int_numeral)
  qed
  have nz: "real_of_int n \<noteq> 0" using False by simp
  have "round_double (of_int n)
          = Finite (if 0 < real_of_int n then ?a else - ?a)"
    using k53 by (intro round_double_at [OF nz _ _ lo hi v small]) simp_all
  then show ?thesis by simp
qed

lemma dadd_of_int:
  assumes "\<bar>a + b\<bar> < 2 ^ 53"
  shows "dadd (Finite (of_int a)) (Finite (of_int b)) = Finite (of_int (a + b))"
  using round_double_of_int [OF assms] by simp

lemma dsub_of_int:
  assumes "\<bar>a - b\<bar> < 2 ^ 53"
  shows "dsub (Finite (of_int a)) (Finite (of_int b)) = Finite (of_int (a - b))"
  using round_double_of_int [OF assms] by (simp add: dsub_def)

text \<open>On an integral coordinate of magnitude at most \<open>2 ^ 52\<close>, adding a \<^verbatim>\<open>uint32_t\<close> and
  subtracting an integer of at most 33 bits involve no rounding.\<close>

lemma anchored_shift_exact:
  assumes "\<bar>n\<bar> \<le> 2 ^ 52" and "\<bar>c\<bar> \<le> 2 ^ 32"
  shows "dsub (dadd (Finite (of_int n)) (double_of_u32 sz)) (Finite (of_int c))
         = Finite (of_int n + (real (unat sz) - of_int c))"
proof -
  have s: "0 \<le> uint sz" "uint sz < 2 ^ 32"
    using uint_lt2p [of sz] by simp_all
  have u: "double_of_u32 sz = Finite (of_int (uint sz))"
    by (simp add: double_of_u32_def)
  have p: "(2::int) ^ 52 = 4503599627370496" "(2::int) ^ 53 = 9007199254740992"
    "(2::int) ^ 32 = 4294967296" by simp_all
  have "\<bar>n + uint sz\<bar> < 2 ^ 53" using assms(1) s unfolding p by linarith
  then have a: "dadd (Finite (of_int n)) (double_of_u32 sz)
                  = Finite (of_int (n + uint sz))"
    unfolding u by (rule dadd_of_int)
  have "\<bar>n + uint sz - c\<bar> < 2 ^ 53" using assms s unfolding p by linarith
  then have "dsub (Finite (of_int (n + uint sz))) (Finite (of_int c))
               = Finite (of_int (n + uint sz - c))"
    by (rule dsub_of_int)
  then show ?thesis unfolding a by simp
qed

lemma anchored_shift_exact_u32:
  assumes "\<bar>n\<bar> \<le> 2 ^ 52"
  shows "dsub (dadd (Finite (of_int n)) (double_of_u32 sz)) (double_of_u32 c)
         = Finite (of_int n + (real (unat sz) - real (unat c)))"
proof -
  have "\<bar>uint c\<bar> \<le> 2 ^ 32" using uint_lt2p [of c] by simp
  from anchored_shift_exact [OF assms this, of sz] show ?thesis
    by (simp add: double_of_u32_def)
qed

lemma anchored_shift_exact_int:
  assumes "\<bar>n\<bar> \<le> 2 ^ 52" and "\<bar>c\<bar> \<le> 2 ^ 31"
  shows "dsub (dadd (Finite (of_int n)) (double_of_u32 sz)) (double_of_int c)
         = Finite (of_int n + (real (unat sz) - of_int c))"
proof -
  have "\<bar>c\<bar> \<le> 2 ^ 32" using assms(2) by simp
  from anchored_shift_exact [OF assms(1) this, of sz] show ?thesis
    by (simp add: double_of_int_def)
qed

subsection \<open>Reading the world\<close>

lemmas world_defs = fresh_world_def demo_world_def ticket_world_def popup_role_world_def
  eager_world_def one_popup_world_def demo_view_def blank_view_def demo_surface_def
  demo_popup_surface_def demo_state_def inverted_surface_def bounded_surface_def
  fractional_ticket_world_def

lemmas collaborator_defs = emit_def wlr_xdg_toplevel_v6_set_activated_def
  wlr_xdg_toplevel_v6_set_size_def wlr_xdg_toplevel_v6_set_maximized_def
  wlr_xdg_toplevel_v6_set_fullscreen_def wlr_xdg_surface_v6_send_close_def
  wlr_xdg_surface_v6_ping_def wlr_log_def view_damage_whole_def view_apply_damage_def
  view_update_size_def view_update_position_def view_maximize_def view_set_fullscreen_def
  view_create_def view_child_init_def view_child_finish_def wl_signal_add_def
  registered_def wl_list_remove_def c_assert_def client_ack_commit_def

lemmas observation_defs = position_of_def view_position_def ticket_of_def popup_parent_def
  registered_listeners_def

lemma get_size_calls_update: "get_size v (w\<lparr>calls := cs\<rparr>) = get_size v w"
  by (simp add: get_size_def cong: option.case_cong if_cong Option.bind_cong)

lemma get_size_view_apply_damage: "get_size v (view_apply_damage v' w) = get_size v w"
  by (simp add: view_apply_damage_def emit_def get_size_calls_update)

lemma views_view_apply_damage: "views (view_apply_damage v' w) = views w"
  by (simp add: view_apply_damage_def emit_def)

lemma roots_surfaces_view_apply_damage:
  "roots_surfaces (view_apply_damage v' w) = roots_surfaces w"
  by (simp add: view_apply_damage_def emit_def)

lemma views_view_update_size:
  "views w v = Some view \<Longrightarrow>
   views (view_update_size v a b w) = (views w)(v \<mapsto> view\<lparr>view_width := a, view_height := b\<rparr>)"
  by (simp add: view_update_size_def emit_def)

lemma roots_surfaces_view_update_size:
  "roots_surfaces (view_update_size v a b w) = roots_surfaces w"
  by (simp add: view_update_size_def emit_def split: option.splits)

lemma views_view_update_position:
  "views w v = Some view \<Longrightarrow>
   views (view_update_position v x y w) = (views w)(v \<mapsto> view\<lparr>view_x := x, view_y := y\<rparr>)"
  by (simp add: view_update_position_def emit_def)

lemma roots_surfaces_view_update_position:
  "roots_surfaces (view_update_position v x y w) = roots_surfaces w"
  by (simp add: view_update_position_def emit_def split: option.splits)

lemmas commit_simps = get_size_view_apply_damage views_view_apply_damage
  roots_surfaces_view_apply_damage views_view_update_size roots_surfaces_view_update_size
  views_view_update_position roots_surfaces_view_update_position

lemma handle_surface_commit_unmapped:
  assumes "roots_surfaces w rs = Some roots_surface"
    and "rs_view roots_surface = Some v"
    and "views w v = Some view"
    and "xdg_surface_v6 view = Some sp"
    and "xdg_surfaces w sp = Some surface"
    and "\<not> mapped surface"
  shows "handle_surface_commit rs w = Some w"
  using assms by (simp add: handle_surface_commit_def)

text \<open>The effect of a commit on the position and on the ticket, in one statement.\<close>

lemma handle_surface_commit_effect:
  assumes "roots_surfaces w rs = Some roots_surface"
    and "rs_view roots_surface = Some v"
    and "views w v = Some view"
    and "xdg_surface_v6 view = Some sp"
    and "xdg_surfaces w sp = Some surface"
    and "mapped surface"
    and "get_size v w = Some box"
    and "expected = pending_move_resize_configure_serial roots_surface"
    and "acked = configure_serial surface"
    and "pmr = pending_move_resize view"
  shows "\<exists>w'. handle_surface_commit rs w = Some w'
     \<and> view_position v w' = Some
          (if expected \<noteq> 0 \<and> acked \<le> expected
           then (if update_x pmr
                 then dsub (dadd (pending_x pmr) (double_of_u32 (pending_width pmr)))
                           (double_of_int (box_width box))
                 else view_x view,
                 if update_y pmr
                 then dsub (dadd (pending_y pmr) (double_of_u32 (pending_height pmr)))
                           (double_of_int (box_height box))
                 else view_y view)
           else (view_x view, view_y view))
     \<and> ticket_of rs w' = Some (if expected = acked then 0 else expected)"
  using assms
  by (auto simp: handle_surface_commit_def commit_simps Let_def word_gt_0
       view_position_def position_of_def ticket_of_def)

subsection \<open>The geometry constraint solver\<close>

lemma apply_size_constraints_fst:
  "fst (apply_size_constraints surface width height) =
     (if width < min_width (current (toplevel surface)) then min_width (current (toplevel surface))
      else if max_width (current (toplevel surface)) > 0
              \<and> width > max_width (current (toplevel surface))
      then max_width (current (toplevel surface))
      else width)"
  by (simp add: apply_size_constraints_def Let_def)

lemma apply_size_constraints_snd:
  "snd (apply_size_constraints surface width height) =
     (if height < min_height (current (toplevel surface)) then min_height (current (toplevel surface))
      else if max_height (current (toplevel surface)) > 0
              \<and> height > max_height (current (toplevel surface))
      then max_height (current (toplevel surface))
      else height)"
  by (simp add: apply_size_constraints_def Let_def)

text \<open>
  C3. Where the declared bounds of an axis are consistent (the maximum is 0 or at least
  the minimum), the constrained dimension is at least the minimum and, under a positive
  maximum, at most the maximum; a requested dimension already within the bounds is
  returned as it is. Widths and heights alike.
\<close>

theorem apply_size_constraints_in_bounds:
  assumes "state = current (toplevel surface)"
    and "apply_size_constraints surface width height = (dest_width, dest_height)"
  shows "(max_width state = 0 \<or> min_width state \<le> max_width state \<longrightarrow>
            min_width state \<le> dest_width
          \<and> (0 < max_width state \<longrightarrow> dest_width \<le> max_width state)
          \<and> (min_width state \<le> width \<and> (0 < max_width state \<longrightarrow> width \<le> max_width state)
               \<longrightarrow> dest_width = width))
       \<and> (max_height state = 0 \<or> min_height state \<le> max_height state \<longrightarrow>
            min_height state \<le> dest_height
          \<and> (0 < max_height state \<longrightarrow> dest_height \<le> max_height state)
          \<and> (min_height state \<le> height \<and> (0 < max_height state \<longrightarrow> height \<le> max_height state)
               \<longrightarrow> dest_height = height))"
proof -
  have w: "dest_width = fst (apply_size_constraints surface width height)"
    and h: "dest_height = snd (apply_size_constraints surface width height)"
    using assms(2) by simp_all
  have "max_width state = 0 \<or> min_width state \<le> max_width state \<longrightarrow>
            min_width state \<le> dest_width
          \<and> (0 < max_width state \<longrightarrow> dest_width \<le> max_width state)
          \<and> (min_width state \<le> width \<and> (0 < max_width state \<longrightarrow> width \<le> max_width state)
               \<longrightarrow> dest_width = width)"
    unfolding w assms(1) apply_size_constraints_fst by (auto simp: word_gt_0)
  moreover have "max_height state = 0 \<or> min_height state \<le> max_height state \<longrightarrow>
            min_height state \<le> dest_height
          \<and> (0 < max_height state \<longrightarrow> dest_height \<le> max_height state)
          \<and> (min_height state \<le> height \<and> (0 < max_height state \<longrightarrow> height \<le> max_height state)
               \<longrightarrow> dest_height = height)"
    unfolding h assms(1) apply_size_constraints_snd by (auto simp: word_gt_0)
  ultimately show ?thesis by blast
qed

text \<open>With bounds 100 to 500: a width of 50 is raised to 100, a height of 700 is lowered
  to 500, and 200 by 300 is returned unchanged.\<close>

theorem apply_size_constraints_in_bounds_witness:
  "apply_size_constraints bounded_surface 50 700 = (100, 500)
   \<and> (100::u32) \<le> 100 \<and> (100::u32) \<le> 500
   \<and> apply_size_constraints bounded_surface 200 300 = (200, 300)"
proof -
  have a: "apply_size_constraints bounded_surface 50 700 = (100, 500)"
    by (simp add: apply_size_constraints_def bounded_surface_def demo_surface_def)
  have b: "apply_size_constraints bounded_surface 200 300 = (200, 300)"
    by (simp add: apply_size_constraints_def bounded_surface_def demo_surface_def)
  have "min_width (current (toplevel bounded_surface)) \<le> max_width (current (toplevel bounded_surface))"
    by (simp add: bounded_surface_def)
  with apply_size_constraints_in_bounds [OF refl a] apply_size_constraints_in_bounds [OF refl b]
  show ?thesis using a b by simp
qed

text \<open>
  C4, as stated, fails: with a minimum of 300 above a maximum of 100 a width of 50 is
  constrained to 300, and 300 is constrained to 100.
\<close>

theorem constrain_twice_counterexample:
  "apply_size_constraints inverted_surface 50 50 = (300, 50)
   \<and> constrain_twice inverted_surface 50 50 = (100, 50)
   \<and> constrain_twice inverted_surface 50 50 \<noteq> apply_size_constraints inverted_surface 50 50"
  by (simp add: constrain_twice_def apply_size_constraints_def inverted_surface_def
        demo_surface_def demo_state_def)

text \<open>
  C4, amended. Applying the constraint function to its own output gives the same result
  as applying it once exactly when, on each axis, the declared maximum is 0 or at least
  the declared minimum. This holds for every requested width and height.
\<close>

theorem constrain_twice_idempotent_iff:
  "constrain_twice surface width height = apply_size_constraints surface width height
   \<longleftrightarrow> (max_width (current (toplevel surface)) = 0
          \<or> min_width (current (toplevel surface)) \<le> max_width (current (toplevel surface)))
       \<and> (max_height (current (toplevel surface)) = 0
          \<or> min_height (current (toplevel surface)) \<le> max_height (current (toplevel surface)))"
  by (auto simp: constrain_twice_def apply_size_constraints_def Let_def word_gt_0)

theorem constrain_twice_idempotent_iff_witness:
  "constrain_twice bounded_surface 50 700 = apply_size_constraints bounded_surface 50 700
   \<and> constrain_twice demo_surface 50 700 = apply_size_constraints demo_surface 50 700"
  using constrain_twice_idempotent_iff [of bounded_surface 50 700]
        constrain_twice_idempotent_iff [of demo_surface 50 700]
  by (simp add: bounded_surface_def demo_surface_def demo_state_def)

subsection \<open>Reconciliation on commit\<close>

lemma round_double_commit_example:
  "round_double (near_three_tenths + 100 + - 300)
     = Finite (- (3513159553069875 / 17592186044416))"
  by (subst round_double_at [where e = 7 and v = "3513159553069875 / 17592186044416"])
     (simp_all add: round_half_even_def near_three_tenths_def)

lemma round_double_commit_sum:
  "round_double (near_three_tenths + 100) = Finite (near_three_tenths + 100)"
  by (subst round_double_at [where e = 6 and v = "near_three_tenths + 100"])
     (simp_all add: round_half_even_def near_three_tenths_def)

text \<open>
  C1, as stated, fails, in two ways. First, a ticket for serial 2 is open and the mapped
  surface has acknowledged serial 3, so the acknowledged serial is at least the expected
  one; both axes are anchored, the target is (5, 6) at 100 by 50 and the committed size is
  120 by 50. The claim gives the position (5 + (100 - 120), 6 + (50 - 50)); the handler
  leaves the View at (0, 0). Second, with the ticket and the acknowledgement both at
  serial 3, the target x at 0.29999999999999716, the target width 100 and the committed
  width 300, the handler does apply the position, but what it computes in double
  arithmetic, \<^verbatim>\<open>(x + 100) - 300\<close>, is -199.69999999999998863, not the sum
  x + (100 - 300).
\<close>

theorem handle_surface_commit_counterexample:
  "ticket_of 3 (ticket_world 2 3) = Some 2
   \<and> map_option configure_serial (xdg_surfaces (ticket_world 2 3) 2) = Some 3
   \<and> (2::u32) \<noteq> 0 \<and> (3::u32) \<ge> 2
   \<and> map_option mapped (xdg_surfaces (ticket_world 2 3) 2) = Some True
   \<and> map_option pending_move_resize (views (ticket_world 2 3) 1) =
       Some \<lparr>update_x = True, update_y = True, pending_x = Finite 5, pending_y = Finite 6,
             pending_width = 100, pending_height = 50\<rparr>
   \<and> get_size 1 (ticket_world 2 3) = Some \<lparr>box_width = 120, box_height = 50\<rparr>
   \<and> map_option (view_position 1) (handle_surface_commit 3 (ticket_world 2 3))
       = Some (Some (Finite 0, Finite 0))
   \<and> (Finite 0, Finite 0) \<noteq> (Finite (5 + (100 - 120)), Finite (6 + (50 - 50)))
   \<and> ticket_of 3 fractional_ticket_world = Some 3
   \<and> map_option configure_serial (xdg_surfaces fractional_ticket_world 2) = Some 3
   \<and> map_option mapped (xdg_surfaces fractional_ticket_world 2) = Some True
   \<and> map_option pending_move_resize (views fractional_ticket_world 1) =
       Some \<lparr>update_x = True, update_y = False,
             pending_x = Finite near_three_tenths, pending_y = Finite 0,
             pending_width = 100, pending_height = 50\<rparr>
   \<and> get_size 1 fractional_ticket_world = Some \<lparr>box_width = 300, box_height = 50\<rparr>
   \<and> map_option (view_position 1) (handle_surface_commit 3 fractional_ticket_world)
       = Some (Some (Finite (- (3513159553069875 / 17592186044416)), Finite 0))
   \<and> Finite (- (3513159553069875 / 17592186044416))
       \<noteq> Finite (near_three_tenths + (100 - 300))"
proof -
  have a: "get_size 1 (ticket_world 2 3) = Some \<lparr>box_width = 120, box_height = 50\<rparr>"
    "get_size 1 fractional_ticket_world = Some \<lparr>box_width = 300, box_height = 50\<rparr>"
    by (simp_all add: world_defs get_size_def c_assert_def)
  have b: "map_option (view_position 1) (handle_surface_commit 3 (ticket_world 2 3))
             = Some (Some (Finite 0, Finite 0))"
    by (simp add: world_defs handle_surface_commit_def get_size_def collaborator_defs
          observation_defs Let_def)
  have c: "dsub (dadd (Finite near_three_tenths) (double_of_u32 100)) (double_of_int 300)
             = Finite (- (3513159553069875 / 17592186044416))"
  proof -
    have u: "double_of_u32 100 = Finite 100" "double_of_int 300 = Finite 300"
      by (simp_all add: double_of_u32_def double_of_int_def)
    show ?thesis
      unfolding u dsub_def dneg.simps dadd.simps round_double_commit_sum
      by (rule round_double_commit_example)
  qed
  have d: "map_option (view_position 1) (handle_surface_commit 3 fractional_ticket_world)
             = Some (Some (Finite (- (3513159553069875 / 17592186044416)), Finite 0))"
    by (simp add: world_defs handle_surface_commit_def get_size_def collaborator_defs
          observation_defs Let_def c)
  have e: "Finite (- (3513159553069875 / 17592186044416))
             \<noteq> Finite (near_three_tenths + (100 - 300))"
    by (simp add: near_three_tenths_def)
  have f: "ticket_of 3 (ticket_world 2 3) = Some 2"
    "map_option configure_serial (xdg_surfaces (ticket_world 2 3) 2) = Some 3"
    "map_option mapped (xdg_surfaces (ticket_world 2 3) 2) = Some True"
    "map_option pending_move_resize (views (ticket_world 2 3) 1) =
       Some \<lparr>update_x = True, update_y = True, pending_x = Finite 5, pending_y = Finite 6,
             pending_width = 100, pending_height = 50\<rparr>"
    "ticket_of 3 fractional_ticket_world = Some 3"
    "map_option configure_serial (xdg_surfaces fractional_ticket_world 2) = Some 3"
    "map_option mapped (xdg_surfaces fractional_ticket_world 2) = Some True"
    "map_option pending_move_resize (views fractional_ticket_world 1) =
       Some \<lparr>update_x = True, update_y = False,
             pending_x = Finite near_three_tenths, pending_y = Finite 0,
             pending_width = 100, pending_height = 50\<rparr>"
    by (simp_all add: world_defs observation_defs)
  have g: "(2::u32) \<noteq> 0" "(3::u32) \<ge> 2"
    "(Finite 0, Finite 0) \<noteq> (Finite (5 + (100 - 120)), Finite (6 + (50 - 50)))"
    by simp_all
  from a b d e f g show ?thesis by blast
qed

text \<open>
  C1, amended. On a surface commit while mapped, with \<open>expected\<close> the ticket's serial and
  \<open>acked\<close> the surface's committed configure serial: if \<open>expected\<close> is nonzero and
  \<open>acked \<le> expected\<close>, the deferred position is applied, each axis whose update flag is
  true being set to the double-precision value of (target position + target size) -
  committed size, which for an integral target position of magnitude at most \<open>2 ^ 52\<close>
  is exactly target position + (target size - committed size); if no ticket is open or
  \<open>acked\<close> is greater than \<open>expected\<close>, the position is left as it is.
\<close>

theorem handle_surface_commit_applies_position:
  assumes "roots_surfaces w rs = Some roots_surface"
    and "rs_view roots_surface = Some v"
    and "views w v = Some view"
    and "xdg_surface_v6 view = Some sp"
    and "xdg_surfaces w sp = Some surface"
    and "mapped surface"
    and "get_size v w = Some committed"
    and "expected = pending_move_resize_configure_serial roots_surface"
    and "acked = configure_serial surface"
    and "target = pending_move_resize view"
  shows "\<exists>w' view'. handle_surface_commit rs w = Some w' \<and> views w' v = Some view'
     \<and> (expected \<noteq> 0 \<and> acked \<le> expected \<longrightarrow>
            view_x view' =
              (if update_x target
               then dsub (dadd (pending_x target) (double_of_u32 (pending_width target)))
                         (double_of_int (box_width committed))
               else view_x view)
          \<and> view_y view' =
              (if update_y target
               then dsub (dadd (pending_y target) (double_of_u32 (pending_height target)))
                         (double_of_int (box_height committed))
               else view_y view)
          \<and> (\<forall>n. update_x target \<and> pending_x target = Finite (of_int n) \<and> \<bar>n\<bar> \<le> 2 ^ 52
                   \<and> \<bar>box_width committed\<bar> \<le> 2 ^ 31 \<longrightarrow>
                 view_x view' =
                   Finite (of_int n + (real (unat (pending_width target))
                                        - real_of_int (box_width committed))))
          \<and> (\<forall>n. update_y target \<and> pending_y target = Finite (of_int n) \<and> \<bar>n\<bar> \<le> 2 ^ 52
                   \<and> \<bar>box_height committed\<bar> \<le> 2 ^ 31 \<longrightarrow>
                 view_y view' =
                   Finite (of_int n + (real (unat (pending_height target))
                                        - real_of_int (box_height committed)))))
     \<and> (expected = 0 \<or> expected < acked \<longrightarrow>
            view_x view' = view_x view \<and> view_y view' = view_y view)"
proof -
  from handle_surface_commit_effect [OF assms]
  obtain w' where c: "handle_surface_commit rs w = Some w'"
    and p: "view_position v w' = Some
          (if expected \<noteq> 0 \<and> acked \<le> expected
           then (if update_x target
                 then dsub (dadd (pending_x target) (double_of_u32 (pending_width target)))
                           (double_of_int (box_width committed))
                 else view_x view,
                 if update_y target
                 then dsub (dadd (pending_y target) (double_of_u32 (pending_height target)))
                           (double_of_int (box_height committed))
                 else view_y view)
           else (view_x view, view_y view))"
    by blast
  from p obtain view' where v: "views w' v = Some view'"
    and xy: "(view_x view', view_y view') =
          (if expected \<noteq> 0 \<and> acked \<le> expected
           then (if update_x target
                 then dsub (dadd (pending_x target) (double_of_u32 (pending_width target)))
                           (double_of_int (box_width committed))
                 else view_x view,
                 if update_y target
                 then dsub (dadd (pending_y target) (double_of_u32 (pending_height target)))
                           (double_of_int (box_height committed))
                 else view_y view)
           else (view_x view, view_y view))"
    by (auto simp: view_position_def position_of_def)
  have "\<not> (expected \<noteq> 0 \<and> acked \<le> expected) \<longleftrightarrow> expected = 0 \<or> expected < acked"
    by auto
  with c v xy show ?thesis
    by (auto simp: anchored_shift_exact_int split: if_splits)
qed

text \<open>The ticket is for serial 3 and the client has acknowledged serial 2 with a
  committed size of 120 by 50: the position becomes (5 + (100 - 120), 6 + (50 - 50)).\<close>

theorem handle_surface_commit_applies_position_witness:
  "\<exists>w' view'. handle_surface_commit 3 (ticket_world 3 2) = Some w'
     \<and> views w' 1 = Some view' \<and> view_x view' = Finite (- 15) \<and> view_y view' = Finite 6"
proof -
  have h1: "roots_surfaces (ticket_world 3 2) 3
             = Some \<lparr>rs_view = Some 1, pending_move_resize_configure_serial = 3\<rparr>"
    by (simp add: world_defs)
  have h2: "rs_view \<lparr>rs_view = Some 1, pending_move_resize_configure_serial = 3\<rparr> = Some 1"
    by simp
  obtain view where h3: "views (ticket_world 3 2) 1 = Some view"
    and t: "pending_move_resize view =
              \<lparr>update_x = True, update_y = True, pending_x = Finite 5, pending_y = Finite 6,
               pending_width = 100, pending_height = 50\<rparr>"
    and h4: "xdg_surface_v6 view = Some 2"
    by (simp add: world_defs)
  obtain surface where h5: "xdg_surfaces (ticket_world 3 2) 2 = Some surface"
    and h6: "mapped surface" and a: "configure_serial surface = 2"
    by (simp add: world_defs)
  have h7: "get_size 1 (ticket_world 3 2) = Some \<lparr>box_width = 120, box_height = 50\<rparr>"
    by (simp add: world_defs get_size_def collaborator_defs)
  have n: "Finite 5 = Finite (of_int 5)" "Finite 6 = Finite (of_int 6)" by simp_all
  from handle_surface_commit_applies_position [OF h1 h2 h3 h4 h5 h6 h7 refl refl refl]
  obtain w' view' where r: "handle_surface_commit 3 (ticket_world 3 2) = Some w'"
    "views w' 1 = Some view'"
    and x: "\<forall>n. Finite 5 = Finite (of_int n) \<and> \<bar>n\<bar> \<le> 2 ^ 52
              \<longrightarrow> view_x view' = Finite (of_int n + (100 - 120))"
    and y: "\<forall>n. Finite 6 = Finite (of_int n) \<and> \<bar>n\<bar> \<le> 2 ^ 52
              \<longrightarrow> view_y view' = Finite (of_int n + (50 - 50))"
    by (auto simp: t a)
  from x [rule_format, of 5] y [rule_format, of 6] r show ?thesis by auto
qed

text \<open>
  C2. For a commit processed while mapped and while a ticket is outstanding (the
  expected serial is nonzero), the ticket is reset to zero if and only if the
  acknowledged configure serial equals the expected serial; otherwise, and so whenever
  the acknowledged serial is strictly greater, the ticket stays open with its serial.
\<close>

theorem ticket_cleared_iff_exact_ack:
  assumes "roots_surfaces w rs = Some roots_surface"
    and "rs_view roots_surface = Some v"
    and "views w v = Some view"
    and "xdg_surface_v6 view = Some sp"
    and "xdg_surfaces w sp = Some surface"
    and "mapped surface"
    and "get_size v w = Some committed"
    and "expected = pending_move_resize_configure_serial roots_surface"
    and "acked = configure_serial surface"
    and "expected \<noteq> 0"
  shows "\<exists>w'. handle_surface_commit rs w = Some w'
     \<and> (ticket_of rs w' = Some 0 \<longleftrightarrow> acked = expected)
     \<and> (acked \<noteq> expected \<longrightarrow> ticket_of rs w' = Some expected)
     \<and> (expected < acked \<longrightarrow> ticket_of rs w' = Some expected)"
  using assms
  by (auto simp: handle_surface_commit_def commit_simps Let_def word_gt_0 ticket_of_def)

text \<open>An acknowledgement of serial 3 clears the ticket for serial 3 and leaves the
  ticket for serial 2 open.\<close>

theorem ticket_cleared_iff_exact_ack_witness:
  "map_option (ticket_of 3) (handle_surface_commit 3 (ticket_world 3 3)) = Some (Some 0)
   \<and> map_option (ticket_of 3) (handle_surface_commit 3 (ticket_world 2 3)) = Some (Some 2)"
proof -
  have step: "\<exists>w'. handle_surface_commit 3 (ticket_world e 3) = Some w'
       \<and> (ticket_of 3 w' = Some 0 \<longleftrightarrow> 3 = e)
       \<and> (3 \<noteq> e \<longrightarrow> ticket_of 3 w' = Some e)"
    if "e \<noteq> 0" for e
  proof -
    have h1: "roots_surfaces (ticket_world e 3) 3
                = Some \<lparr>rs_view = Some 1, pending_move_resize_configure_serial = e\<rparr>"
      by (simp add: world_defs)
    have h2: "rs_view \<lparr>rs_view = Some 1, pending_move_resize_configure_serial = e\<rparr> = Some 1"
      by simp
    obtain view where h3: "views (ticket_world e 3) 1 = Some view"
      and h4: "xdg_surface_v6 view = Some 2"
      by (simp add: world_defs)
    obtain surface where h5: "xdg_surfaces (ticket_world e 3) 2 = Some surface"
      and h6: "mapped surface" and a: "configure_serial surface = 3"
      by (simp add: world_defs)
    have h7: "get_size 1 (ticket_world e 3) = Some \<lparr>box_width = 120, box_height = 50\<rparr>"
      by (simp add: world_defs get_size_def collaborator_defs)
    from ticket_cleared_iff_exact_ack [OF h1 h2 h3 h4 h5 h6 h7 refl refl] that
    show ?thesis by (auto simp: a)
  qed
  have "(3::u32) \<noteq> 0" and "(2::u32) \<noteq> 0" and "(3::u32) \<noteq> 2" by simp_all
  with step [of 3] step [of 2] show ?thesis by auto
qed

subsection \<open>Move and resize\<close>

lemma move_resize_with_serial:
  assumes "views w v = Some view"
    and "view_type view = ROOTS_XDG_SHELL_V6_VIEW"
    and "roots_xdg_surface_v6 view = Some rs"
    and "xdg_surface_v6 view = Some sp"
    and "xdg_surfaces w sp = Some surface"
    and "role surface = WLR_XDG_SURFACE_V6_ROLE_TOPLEVEL"
    and "roots_surfaces w rs = Some roots_surface"
    and "apply_size_constraints surface width height = (cw, ch)"
    and "serial \<noteq> 0"
  shows "move_resize v x y width height serial w =
     Some (w\<lparr>views := (views w)(v \<mapsto> view\<lparr>pending_move_resize :=
                 \<lparr>update_x = (\<not> deq x (view_x view)), update_y = (\<not> deq y (view_y view)),
                  pending_x = (if \<not> deq x (view_x view)
                               then dsub (dadd x (double_of_u32 width)) (double_of_u32 cw)
                               else x),
                  pending_y = (if \<not> deq y (view_y view)
                               then dsub (dadd y (double_of_u32 height)) (double_of_u32 ch)
                               else y),
                  pending_width = cw, pending_height = ch\<rparr>\<rparr>),
             calls := calls w @ [Wlr_xdg_toplevel_v6_set_size sp cw ch],
             roots_surfaces := (roots_surfaces w)(rs \<mapsto>
                roots_surface\<lparr>pending_move_resize_configure_serial := serial\<rparr>)\<rparr>)"
  using assms
  by (simp add: move_resize_def c_assert_def Let_def wlr_xdg_toplevel_v6_set_size_def
        emit_def word_gt_0)

lemma move_resize_pending:
  assumes "views w v = Some view"
    and "view_type view = ROOTS_XDG_SHELL_V6_VIEW"
    and "roots_xdg_surface_v6 view = Some rs"
    and "xdg_surface_v6 view = Some sp"
    and "xdg_surfaces w sp = Some surface"
    and "role surface = WLR_XDG_SURFACE_V6_ROLE_TOPLEVEL"
    and "roots_surfaces w rs = Some roots_surface"
    and "apply_size_constraints surface width height = (cw, ch)"
  shows "\<exists>w' view'. move_resize v x y width height serial w = Some w'
      \<and> views w' v = Some view'
      \<and> pending_move_resize view' =
           \<lparr>update_x = (\<not> deq x (view_x view)), update_y = (\<not> deq y (view_y view)),
            pending_x = (if \<not> deq x (view_x view)
                         then dsub (dadd x (double_of_u32 width)) (double_of_u32 cw)
                         else x),
            pending_y = (if \<not> deq y (view_y view)
                         then dsub (dadd y (double_of_u32 height)) (double_of_u32 ch)
                         else y),
            pending_width = cw, pending_height = ch\<rparr>"
  using assms
  by (auto simp: move_resize_def c_assert_def Let_def wlr_xdg_toplevel_v6_set_size_def
        emit_def word_gt_0 views_view_update_position)

lemma get_size_geometry:
  assumes "views w v = Some view"
    and "view_type view = ROOTS_XDG_SHELL_V6_VIEW"
    and "xdg_surface_v6 view = Some sp"
    and "xdg_surfaces w sp = Some surface"
    and "0 < box_width (geometry surface)"
    and "0 < box_height (geometry surface)"
  shows "get_size v w = Some \<lparr>box_width = box_width (geometry surface),
                              box_height = box_height (geometry surface)\<rparr>"
  using assms by (simp add: get_size_def c_assert_def)

lemma move_resize_then_commit_position:
  assumes "views w v = Some view"
    and "view_type view = ROOTS_XDG_SHELL_V6_VIEW"
    and "roots_xdg_surface_v6 view = Some rs"
    and "xdg_surface_v6 view = Some sp"
    and "xdg_surfaces w sp = Some surface"
    and "role surface = WLR_XDG_SURFACE_V6_ROLE_TOPLEVEL"
    and "roots_surfaces w rs = Some roots_surface"
    and "apply_size_constraints surface width height = (cw, ch)"
    and "serial \<noteq> 0"
    and "rs_view roots_surface = Some v"
    and "mapped surface"
    and "0 < cw" and "0 < ch"
  shows "\<exists>w''. move_resize_then_commit v rs sp x y width height serial
                  (int (unat cw)) (int (unat ch)) w = Some w''
      \<and> view_position v w'' =
           Some (if \<not> deq x (view_x view)
                 then dsub (dadd (dsub (dadd x (double_of_u32 width)) (double_of_u32 cw))
                                 (double_of_u32 cw))
                           (double_of_int (int (unat cw)))
                 else view_x view,
                 if \<not> deq y (view_y view)
                 then dsub (dadd (dsub (dadd y (double_of_u32 height)) (double_of_u32 ch))
                                 (double_of_u32 ch))
                           (double_of_int (int (unat ch)))
                 else view_y view)
      \<and> ticket_of rs w'' = Some 0"
proof -
  let ?target = "\<lparr>update_x = (\<not> deq x (view_x view)), update_y = (\<not> deq y (view_y view)),
                  pending_x = (if \<not> deq x (view_x view)
                               then dsub (dadd x (double_of_u32 width)) (double_of_u32 cw)
                               else x),
                  pending_y = (if \<not> deq y (view_y view)
                               then dsub (dadd y (double_of_u32 height)) (double_of_u32 ch)
                               else y),
                  pending_width = cw, pending_height = ch\<rparr>"
  let ?view = "view\<lparr>pending_move_resize := ?target\<rparr>"
  let ?roots = "roots_surface\<lparr>pending_move_resize_configure_serial := serial\<rparr>"
  let ?surface = "surface\<lparr>configure_serial := serial,
                    geometry := \<lparr>box_width = int (unat cw), box_height = int (unat ch)\<rparr>\<rparr>"
  let ?w1 = "w\<lparr>views := (views w)(v \<mapsto> ?view),
               calls := calls w @ [Wlr_xdg_toplevel_v6_set_size sp cw ch],
               roots_surfaces := (roots_surfaces w)(rs \<mapsto> ?roots)\<rparr>"
  have m: "move_resize v x y width height serial w = Some ?w1"
    by (rule move_resize_with_serial [OF assms(1-9)])
  let ?w2 = "client_ack_commit sp serial (int (unat cw)) (int (unat ch)) ?w1"
  have v2: "views ?w2 v = Some ?view"
    and r2: "roots_surfaces ?w2 rs = Some ?roots"
    and s2: "xdg_surfaces ?w2 sp = Some ?surface"
    using assms(5) by (simp_all add: client_ack_commit_def)
  have pos: "0 < int (unat cw)" "0 < int (unat ch)"
    using assms(12,13) by (simp_all add: word_gt_0 less_le uint_0_iff)
  have g: "get_size v ?w2 = Some \<lparr>box_width = int (unat cw), box_height = int (unat ch)\<rparr>"
    using get_size_geometry [OF v2 _ _ s2] assms(2,4) pos by simp
  have "rs_view ?roots = Some v" "xdg_surface_v6 ?view = Some sp" "mapped ?surface"
    using assms(4,10,11) by simp_all
  from handle_surface_commit_effect [OF r2 this(1) v2 this(2) s2 this(3) g refl refl refl]
  obtain w3 where c: "handle_surface_commit rs ?w2 = Some w3"
    and p: "view_position v w3 =
           Some (if \<not> deq x (view_x view)
                 then dsub (dadd (dsub (dadd x (double_of_u32 width)) (double_of_u32 cw))
                                 (double_of_u32 cw))
                           (double_of_int (int (unat cw)))
                 else view_x view,
                 if \<not> deq y (view_y view)
                 then dsub (dadd (dsub (dadd y (double_of_u32 height)) (double_of_u32 ch))
                                 (double_of_u32 ch))
                           (double_of_int (int (unat ch)))
                 else view_y view)"
    and t: "ticket_of rs w3 = Some 0"
    using assms(9) by auto
  have "move_resize_then_commit v rs sp x y width height serial
          (int (unat cw)) (int (unat ch)) w = Some w3"
    using m c by (simp add: move_resize_then_commit_def)
  with p t show ?thesis by blast
qed

text \<open>For an integral coordinate of magnitude at most \<open>2 ^ 52\<close>, adding the constrained
  size back and subtracting it again returns the stored target.\<close>

lemma commit_returns_target:
  assumes "\<bar>n\<bar> \<le> 2 ^ 52"
  shows "dsub (dadd (dsub (dadd (Finite (of_int n)) (double_of_u32 sz)) (double_of_u32 c))
                    (double_of_u32 c))
              (double_of_int (int (unat c)))
         = dsub (dadd (Finite (of_int n)) (double_of_u32 sz)) (double_of_u32 c)"
proof -
  have p: "(2::int) ^ 52 = 4503599627370496" "(2::int) ^ 53 = 9007199254740992"
    "(2::int) ^ 32 = 4294967296" by simp_all
  have s: "0 \<le> uint sz" "uint sz < 2 ^ 32" "0 \<le> uint c" "uint c < 2 ^ 32"
    using uint_lt2p [of sz] uint_lt2p [of c] by simp_all
  have t: "dsub (dadd (Finite (of_int n)) (double_of_u32 sz)) (double_of_u32 c)
             = Finite (of_int (n + uint sz - uint c))"
    using anchored_shift_exact_u32 [OF assms, of sz c] by simp
  have "\<bar>n + uint sz - uint c + uint c\<bar> < 2 ^ 53" using assms s unfolding p by linarith
  then have a: "dadd (Finite (of_int (n + uint sz - uint c))) (double_of_u32 c)
                  = Finite (of_int (n + uint sz - uint c + uint c))"
    unfolding double_of_u32_def using dadd_of_int [of "n + uint sz - uint c" "uint c"]
    by simp
  have "\<bar>n + uint sz - uint c + uint c - uint c\<bar> < 2 ^ 53"
    using assms s unfolding p by linarith
  then have b: "dsub (Finite (of_int (n + uint sz - uint c + uint c)))
                     (double_of_int (int (unat c)))
                  = Finite (of_int (n + uint sz - uint c + uint c - uint c))"
    unfolding double_of_int_def
    using dsub_of_int [of "n + uint sz - uint c + uint c" "uint c"] by simp
  show ?thesis unfolding t a b by simp
qed

lemma round_double_move_sum:
  "round_double (three_tenths + 200) = Finite (3523714864696525 / 17592186044416)"
  by (subst round_double_at [where e = 7 and v = "3523714864696525 / 17592186044416"])
     (simp_all add: round_half_even_def three_tenths_def)

lemma round_double_move_difference:
  "round_double (3523714864696525 / 17592186044416 + - 300)
     = Finite (- (1753940948628275 / 17592186044416))"
  by (subst round_double_at [where e = 6 and v = "1753940948628275 / 17592186044416"])
     (simp_all add: round_half_even_def)

lemma round_double_claimed_sum:
  "round_double (three_tenths + - 100) = Finite (- (7015763794513101 / 70368744177664))"
  by (subst round_double_at [where e = 6 and v = "7015763794513101 / 70368744177664"])
     (simp_all add: round_half_even_def three_tenths_def)

text \<open>
  C5, as stated, fails. The current position is (0, 0) and the minimum width 300; the
  request is \<^verbatim>\<open>move_resize(x=0.3, y=0, width=200, height=50)\<close>, where 0.3 stands for the
  double nearest to it. The horizontal axis is anchored and the width is constrained to
  300. The stored target x is the double \<^verbatim>\<open>(0.3 + 200) - 300\<close>, which is
  -99.69999999999998863; it is neither the sum 0.3 + (200 - 300) nor that sum rounded to
  a double, -99.70000000000000284.
\<close>

theorem move_resize_counterexample:
  "apply_size_constraints demo_surface 200 50 = (300, 50)
   \<and> map_option position_of (views demo_world 1) = Some (Finite 0, Finite 0)
   \<and> \<not> deq (Finite three_tenths) (Finite 0)
   \<and> Option.bind (move_resize 1 (Finite three_tenths) (Finite 0) 200 50 7 demo_world)
        (pending_of 1)
       = Some \<lparr>update_x = True, update_y = False,
               pending_x = Finite (- (1753940948628275 / 17592186044416)),
               pending_y = Finite 0, pending_width = 300, pending_height = 50\<rparr>
   \<and> Finite (- (1753940948628275 / 17592186044416)) \<noteq> Finite (three_tenths + (200 - 300))
   \<and> Finite (- (1753940948628275 / 17592186044416))
       \<noteq> dadd (Finite three_tenths) (Finite (200 - 300))"
proof -
  have c: "apply_size_constraints demo_surface 200 50 = (300, 50)"
    by (simp add: apply_size_constraints_def demo_surface_def demo_state_def)
  have h1: "views demo_world 1 = Some demo_view"
    and h2: "view_type demo_view = ROOTS_XDG_SHELL_V6_VIEW"
    and h3: "roots_xdg_surface_v6 demo_view = Some 3"
    and h4: "xdg_surface_v6 demo_view = Some 2"
    and h5: "xdg_surfaces demo_world 2 = Some demo_surface"
    and h6: "role demo_surface = WLR_XDG_SURFACE_V6_ROLE_TOPLEVEL"
    and h7: "roots_surfaces demo_world 3
               = Some \<lparr>rs_view = Some 1, pending_move_resize_configure_serial = 0\<rparr>"
    by (simp_all add: demo_world_def fresh_world_def demo_view_def demo_surface_def)
  have xy: "view_x demo_view = Finite 0" "view_y demo_view = Finite 0"
    by (simp_all add: demo_view_def blank_view_def)
  have p: "map_option position_of (views demo_world 1) = Some (Finite 0, Finite 0)"
    unfolding h1 by (simp add: position_of_def xy)
  have ne: "\<not> deq (Finite three_tenths) (Finite 0)" and eq: "deq (Finite 0) (Finite 0)"
    by (simp_all add: deq_def three_tenths_def)
  have u: "double_of_u32 200 = Finite 200" "double_of_u32 300 = Finite 300"
    by (simp_all add: double_of_u32_def)
  have s: "dsub (dadd (Finite three_tenths) (double_of_u32 200)) (double_of_u32 300)
             = Finite (- (1753940948628275 / 17592186044416))"
    unfolding u dsub_def dneg.simps dadd.simps round_double_move_sum
    by (rule round_double_move_difference)
  have "(7::u32) \<noteq> 0" by simp
  from move_resize_with_serial [OF h1 h2 h3 h4 h5 h6 h7 c this,
         of "Finite three_tenths" "Finite 0"]
  have m: "Option.bind (move_resize 1 (Finite three_tenths) (Finite 0) 200 50 7 demo_world)
             (pending_of 1)
       = Some \<lparr>update_x = True, update_y = False,
               pending_x = Finite (- (1753940948628275 / 17592186044416)),
               pending_y = Finite 0, pending_width = 300, pending_height = 50\<rparr>"
    by (simp add: pending_of_def xy ne eq s)
  have d1: "Finite (- (1753940948628275 / 17592186044416))
              \<noteq> Finite (three_tenths + (200 - 300))"
    by (simp add: three_tenths_def)
  have "dadd (Finite three_tenths) (Finite (200 - 300))
          = Finite (- (7015763794513101 / 70368744177664))"
    using round_double_claimed_sum by simp
  then have d2: "Finite (- (1753940948628275 / 17592186044416))
              \<noteq> dadd (Finite three_tenths) (Finite (200 - 300))"
    by simp
  from c p ne m d1 d2 show ?thesis by blast
qed

text \<open>
  C5, amended. \<^verbatim>\<open>move_resize\<close> on a toplevel stores, on every anchored axis (one whose
  requested coordinate differs from the current one), the double-precision value of
  (requested coordinate + requested size) - constrained size, and the requested
  coordinate itself on the other axes, together with the constrained size. For an
  integral requested coordinate of magnitude at most \<open>2 ^ 52\<close> the stored value is exactly
  coordinate + (requested size - constrained size). When the configure carries a serial
  and the client acknowledges it and commits at the constrained size, the commit handler
  clears the ticket and sets each anchored axis to the double-precision value of (stored
  target + constrained size) - constrained size, which for such integral coordinates is
  the stored target.
\<close>

theorem move_resize_shifts_anchored_target:
  assumes "views w v = Some view"
    and "view_type view = ROOTS_XDG_SHELL_V6_VIEW"
    and "roots_xdg_surface_v6 view = Some rs"
    and "xdg_surface_v6 view = Some sp"
    and "xdg_surfaces w sp = Some surface"
    and "role surface = WLR_XDG_SURFACE_V6_ROLE_TOPLEVEL"
    and "roots_surfaces w rs = Some roots_surface"
    and "apply_size_constraints surface width height = (cw, ch)"
    and "anchored_x = (\<not> deq x (view_x view))"
    and "anchored_y = (\<not> deq y (view_y view))"
    and "target_x = (if anchored_x
                     then dsub (dadd x (double_of_u32 width)) (double_of_u32 cw) else x)"
    and "target_y = (if anchored_y
                     then dsub (dadd y (double_of_u32 height)) (double_of_u32 ch) else y)"
    and "applied_x = (if anchored_x
                      then dsub (dadd target_x (double_of_u32 cw))
                                (double_of_int (int (unat cw)))
                      else view_x view)"
    and "applied_y = (if anchored_y
                      then dsub (dadd target_y (double_of_u32 ch))
                                (double_of_int (int (unat ch)))
                      else view_y view)"
  shows "(\<exists>w' view'. move_resize v x y width height serial w = Some w'
            \<and> views w' v = Some view'
            \<and> pending_move_resize view' =
                 \<lparr>update_x = anchored_x, update_y = anchored_y,
                  pending_x = target_x, pending_y = target_y,
                  pending_width = cw, pending_height = ch\<rparr>)
       \<and> (\<forall>n. anchored_x \<and> x = Finite (of_int n) \<and> \<bar>n\<bar> \<le> 2 ^ 52 \<longrightarrow>
              target_x = Finite (of_int n + (real (unat width) - real (unat cw)))
            \<and> applied_x = target_x)
       \<and> (\<forall>n. anchored_y \<and> y = Finite (of_int n) \<and> \<bar>n\<bar> \<le> 2 ^ 52 \<longrightarrow>
              target_y = Finite (of_int n + (real (unat height) - real (unat ch)))
            \<and> applied_y = target_y)
       \<and> (\<not> anchored_x \<longrightarrow> target_x = x \<and> applied_x = x)
       \<and> (\<not> anchored_y \<longrightarrow> target_y = y \<and> applied_y = y)
       \<and> (serial \<noteq> 0 \<and> rs_view roots_surface = Some v \<and> mapped surface \<and> 0 < cw \<and> 0 < ch
            \<longrightarrow> (\<exists>w''. move_resize_then_commit v rs sp x y width height serial
                          (int (unat cw)) (int (unat ch)) w = Some w''
                    \<and> view_position v w'' = Some (applied_x, applied_y)
                    \<and> ticket_of rs w'' = Some 0))"
proof -
  have a: "\<exists>w' view'. move_resize v x y width height serial w = Some w'
            \<and> views w' v = Some view'
            \<and> pending_move_resize view' =
                 \<lparr>update_x = anchored_x, update_y = anchored_y,
                  pending_x = target_x, pending_y = target_y,
                  pending_width = cw, pending_height = ch\<rparr>"
    using move_resize_pending [OF assms(1-8), where x = x and y = y and serial = serial]
    by (simp add: assms(9-12))
  have b: "target_x = Finite (of_int n + (real (unat width) - real (unat cw)))
             \<and> applied_x = target_x"
    if "anchored_x" "x = Finite (of_int n)" "\<bar>n\<bar> \<le> 2 ^ 52" for n
  proof -
    have t: "target_x = dsub (dadd (Finite (of_int n)) (double_of_u32 width)) (double_of_u32 cw)"
      unfolding assms(11) using that(1,2) by (simp only: if_True)
    have "applied_x = dsub (dadd target_x (double_of_u32 cw)) (double_of_int (int (unat cw)))"
      unfolding assms(13) using that(1) by (simp only: if_True)
    then have "applied_x = target_x"
      unfolding t by (simp only: commit_returns_target [OF that(3)])
    moreover have "target_x = Finite (of_int n + (real (unat width) - real (unat cw)))"
      unfolding t by (rule anchored_shift_exact_u32 [OF that(3)])
    ultimately show ?thesis by blast
  qed
  have c: "target_y = Finite (of_int n + (real (unat height) - real (unat ch)))
             \<and> applied_y = target_y"
    if "anchored_y" "y = Finite (of_int n)" "\<bar>n\<bar> \<le> 2 ^ 52" for n
  proof -
    have t: "target_y = dsub (dadd (Finite (of_int n)) (double_of_u32 height)) (double_of_u32 ch)"
      unfolding assms(12) using that(1,2) by (simp only: if_True)
    have "applied_y = dsub (dadd target_y (double_of_u32 ch)) (double_of_int (int (unat ch)))"
      unfolding assms(14) using that(1) by (simp only: if_True)
    then have "applied_y = target_y"
      unfolding t by (simp only: commit_returns_target [OF that(3)])
    moreover have "target_y = Finite (of_int n + (real (unat height) - real (unat ch)))"
      unfolding t by (rule anchored_shift_exact_u32 [OF that(3)])
    ultimately show ?thesis by blast
  qed
  have d: "\<not> anchored_x \<longrightarrow> target_x = x \<and> applied_x = x"
    "\<not> anchored_y \<longrightarrow> target_y = y \<and> applied_y = y"
    by (auto simp: assms(9-14) deq_def)
  have e: "\<exists>w''. move_resize_then_commit v rs sp x y width height serial
                          (int (unat cw)) (int (unat ch)) w = Some w''
                    \<and> view_position v w'' = Some (applied_x, applied_y)
                    \<and> ticket_of rs w'' = Some 0"
    if "serial \<noteq> 0" "rs_view roots_surface = Some v" "mapped surface" "0 < cw" "0 < ch"
  proof -
    have "(if \<not> deq x (view_x view)
           then dsub (dadd (dsub (dadd x (double_of_u32 width)) (double_of_u32 cw))
                           (double_of_u32 cw))
                     (double_of_int (int (unat cw)))
           else view_x view,
           if \<not> deq y (view_y view)
           then dsub (dadd (dsub (dadd y (double_of_u32 height)) (double_of_u32 ch))
                           (double_of_u32 ch))
                     (double_of_int (int (unat ch)))
           else view_y view) = (applied_x, applied_y)"
      unfolding assms(9-14)
      by (cases "deq x (view_x view)"; cases "deq y (view_y view)") simp_all
    with move_resize_then_commit_position [OF assms(1-8) that, where x = x and y = y]
    show ?thesis by (simp only:)
  qed
  from a b c d e show ?thesis by blast
qed

text \<open>The scenario of the specification: current position (0, 0), minimum width 300,
  \<^verbatim>\<open>move_resize(x=10, y=0, width=200, height=50)\<close> answered with serial 7. The
  constrained width is 300, the stored target is (-90, 0) and, once the client has
  acknowledged serial 7 and committed 300 by 50, the applied position is (-90, 0).\<close>

theorem move_resize_shifts_anchored_target_witness:
  "apply_size_constraints demo_surface 200 50 = (300, 50)
   \<and> Option.bind (move_resize 1 (Finite 10) (Finite 0) 200 50 7 demo_world) (pending_of 1)
       = Some \<lparr>update_x = True, update_y = False, pending_x = Finite (- 90),
               pending_y = Finite 0, pending_width = 300, pending_height = 50\<rparr>
   \<and> map_option (view_position 1)
        (move_resize_then_commit 1 3 2 (Finite 10) (Finite 0) 200 50 7 300 50 demo_world)
       = Some (Some (Finite (- 90), Finite 0))
   \<and> map_option (ticket_of 3)
        (move_resize_then_commit 1 3 2 (Finite 10) (Finite 0) 200 50 7 300 50 demo_world)
       = Some (Some 0)"
proof -
  have c: "apply_size_constraints demo_surface 200 50 = (300, 50)"
    by (simp add: apply_size_constraints_def demo_surface_def demo_state_def)
  have h1: "views demo_world 1 = Some demo_view"
    and h2: "view_type demo_view = ROOTS_XDG_SHELL_V6_VIEW"
    and h3: "roots_xdg_surface_v6 demo_view = Some 3"
    and h4: "xdg_surface_v6 demo_view = Some 2"
    and h5: "xdg_surfaces demo_world 2 = Some demo_surface"
    and h6: "role demo_surface = WLR_XDG_SURFACE_V6_ROLE_TOPLEVEL"
    and h7: "roots_surfaces demo_world 3
               = Some \<lparr>rs_view = Some 1, pending_move_resize_configure_serial = 0\<rparr>"
    by (simp_all add: demo_world_def fresh_world_def demo_view_def demo_surface_def)
  have xy: "view_x demo_view = Finite 0" "view_y demo_view = Finite 0"
    and m: "mapped demo_surface"
    by (simp_all add: demo_view_def blank_view_def demo_surface_def)
  have ax: "True = (\<not> deq (Finite 10) (view_x demo_view))"
    and ay: "False = (\<not> deq (Finite 0) (view_y demo_view))"
    by (simp_all add: xy deq_def)
  note t = move_resize_shifts_anchored_target [OF h1 h2 h3 h4 h5 h6 h7 c ax ay refl refl
             refl refl, where serial = 7]
  from t obtain w' view' where r: "move_resize 1 (Finite 10) (Finite 0) 200 50 7 demo_world = Some w'"
    "views w' 1 = Some view'"
    "pending_move_resize view' =
       \<lparr>update_x = True, update_y = False,
        pending_x = dsub (dadd (Finite 10) (double_of_u32 200)) (double_of_u32 300),
        pending_y = Finite 0, pending_width = 300, pending_height = 50\<rparr>"
    by auto
  from t have x: "dsub (dadd (Finite 10) (double_of_u32 200)) (double_of_u32 300)
                    = Finite (of_int 10 + (real (unat (200::u32)) - real (unat (300::u32))))"
    and ap: "dsub (dadd (dsub (dadd (Finite 10) (double_of_u32 200)) (double_of_u32 300))
                        (double_of_u32 300)) (double_of_int (int (unat (300::u32))))
             = dsub (dadd (Finite 10) (double_of_u32 200)) (double_of_u32 300)"
    by (auto dest!: spec [where x = 10])
  have x': "dsub (dadd (Finite 10) (double_of_u32 200)) (double_of_u32 300) = Finite (- 90)"
    unfolding x by simp
  have ap': "dsub (dadd (Finite (- 90)) (double_of_u32 300)) (double_of_int 300)
               = Finite (- 90)"
    using ap unfolding x' by simp
  from t m obtain w'' where
    r2: "move_resize_then_commit 1 3 2 (Finite 10) (Finite 0) 200 50 7 300 50 demo_world
           = Some w''"
    "view_position 1 w'' =
       Some (dsub (dadd (dsub (dadd (Finite 10) (double_of_u32 200)) (double_of_u32 300))
                        (double_of_u32 300)) (double_of_int (int (unat (300::u32)))),
             view_y demo_view)"
    "ticket_of 3 w'' = Some 0"
    by auto
  show ?thesis
    using c r r2 by (simp add: pending_of_def x' ap' xy)
qed

subsection \<open>The role guard\<close>

lemma calls_fold_send_close:
  "calls (fold wlr_xdg_surface_v6_send_close ps w)
     = calls w @ map Wlr_xdg_surface_v6_send_close ps"
  by (induction ps arbitrary: w) (simp_all add: wlr_xdg_surface_v6_send_close_def emit_def)

text \<open>\<^verbatim>\<open>close\<close> reads the role nowhere: whatever it is, every popup of the surface is
  sent a close request, in list order, and then the surface itself.\<close>

lemma close_sends_for_every_role:
  assumes "views w v = Some view"
    and "view_type view = ROOTS_XDG_SHELL_V6_VIEW"
    and "xdg_surface_v6 view = Some sp"
    and "xdg_surfaces w sp = Some surface"
  shows "map_option calls (close v w)
         = Some (calls w @ map Wlr_xdg_surface_v6_send_close (popups surface)
                   @ [Wlr_xdg_surface_v6_send_close sp])"
  using assms
  by (simp add: close_def c_assert_def Let_def)
     (simp add: wlr_xdg_surface_v6_send_close_def emit_def calls_fold_send_close)

text \<open>
  C6, as stated, fails for \<^verbatim>\<open>close\<close>: on a View whose surface has the popup role it
  sends two close requests.
\<close>

theorem close_role_counterexample:
  "map_option xdg_surface_v6 (views popup_role_world 8) = Some (Some 5)
   \<and> map_option role (xdg_surfaces popup_role_world 5) = Some WLR_XDG_SURFACE_V6_ROLE_POPUP
   \<and> calls popup_role_world = []
   \<and> map_option calls (close 8 popup_role_world)
       = Some [Wlr_xdg_surface_v6_send_close 2, Wlr_xdg_surface_v6_send_close 5]
   \<and> close 8 popup_role_world \<noteq> Some popup_role_world"
  by (simp add: world_defs close_def collaborator_defs)

text \<open>
  C6, amended. Each of \<^verbatim>\<open>activate\<close>, \<^verbatim>\<open>resize\<close>, \<^verbatim>\<open>move_resize\<close>, \<^verbatim>\<open>maximize\<close> and
  \<^verbatim>\<open>set_fullscreen\<close>, invoked on a View whose surface role is not toplevel, returns
  without effect: the world, trace of calls included, is the one it was given.
\<close>

theorem guarded_operations_ignore_other_roles:
  assumes "views w v = Some view"
    and "view_type view = ROOTS_XDG_SHELL_V6_VIEW"
    and "xdg_surface_v6 view = Some sp"
    and "xdg_surfaces w sp = Some surface"
    and "role surface \<noteq> WLR_XDG_SURFACE_V6_ROLE_TOPLEVEL"
  shows "activate v active w = Some w
     \<and> resize v width height serial w = Some w
     \<and> move_resize v x y width height serial w = Some w
     \<and> maximize v flag w = Some w
     \<and> set_fullscreen v flag w = Some w"
  using assms
  by (simp add: activate_def resize_def move_resize_def maximize_def set_fullscreen_def
        c_assert_def)

theorem guarded_operations_ignore_other_roles_witness:
  "activate 8 True popup_role_world = Some popup_role_world
   \<and> resize 8 50 80 7 popup_role_world = Some popup_role_world
   \<and> move_resize 8 (Finite 10) (Finite 0) 200 50 7 popup_role_world = Some popup_role_world
   \<and> maximize 8 True popup_role_world = Some popup_role_world
   \<and> set_fullscreen 8 True popup_role_world = Some popup_role_world"
proof -
  have h1: "views popup_role_world 8 = Some (demo_view\<lparr>xdg_surface_v6 := Some 5\<rparr>)"
    and h2: "view_type (demo_view\<lparr>xdg_surface_v6 := Some 5\<rparr>) = ROOTS_XDG_SHELL_V6_VIEW"
    and h3: "xdg_surface_v6 (demo_view\<lparr>xdg_surface_v6 := Some 5\<rparr>) = Some 5"
    and h4: "xdg_surfaces popup_role_world 5 = Some (demo_popup_surface\<lparr>popups := [2]\<rparr>)"
    and h5: "role (demo_popup_surface\<lparr>popups := [2]\<rparr>) \<noteq> WLR_XDG_SURFACE_V6_ROLE_TOPLEVEL"
    by (simp_all add: popup_role_world_def fresh_world_def demo_view_def
          demo_popup_surface_def)
  from guarded_operations_ignore_other_roles [OF h1 h2 h3 h4 h5]
  show ?thesis by simp
qed

subsection \<open>Popups\<close>

lemma popup_create_result:
  assumes "xdg_surfaces w base = Some b"
  shows "popup_create view base (Some p) w =
     Some (Some p,
       w\<lparr>roots_popups := (roots_popups w)(p \<mapsto>
            \<lparr>view_child = \<lparr>child_view = view, child_wlr_surface = Some (wlr_surface_of b),
                            child_destroy = Some FN_popup_destroy\<rparr>,
             wlr_popup = Some base\<rparr>),
          calls := calls w @ [View_child_init p view (wlr_surface_of b)],
          listeners := listeners w @
            [(Xdg_destroy base, Popup_listener p L_destroy, H_popup_handle_destroy),
             (Xdg_map base, Popup_listener p L_map, H_popup_handle_map),
             (Xdg_unmap base, Popup_listener p L_unmap, H_popup_handle_unmap),
             (Xdg_new_popup base, Popup_listener p L_new_popup, H_popup_handle_new_popup)]\<rparr>)"
  using assms
  by (simp add: popup_create_def Let_def view_child_init_def emit_def wl_signal_add_def)

text \<open>In any world, a popup that is created and then destroyed leaves its \<open>map\<close> and
  \<open>unmap\<close> listeners on the surface's signals, and its record is gone.\<close>

lemma popup_destroy_after_create:
  assumes "xdg_surfaces w base = Some b"
  shows "\<exists>w'. popup_create_then_destroy view base (Some p) w = Some w'
     \<and> registered (Popup_listener p L_map) w'
     \<and> registered (Popup_listener p L_unmap) w'
     \<and> \<not> registered (Popup_listener p L_destroy) w'
     \<and> \<not> registered (Popup_listener p L_new_popup) w'
     \<and> roots_popups w' p = None"
  by (auto simp: popup_create_then_destroy_def popup_create_result [OF assms] popup_destroy_def
        c_assert_def wl_list_remove_def registered_def view_child_finish_def emit_def Let_def)

text \<open>
  C7, on the code: \<^verbatim>\<open>popup_create\<close> installs the four listeners \<open>destroy\<close>, \<open>map\<close>,
  \<open>unmap\<close> and \<open>new_popup\<close>; \<^verbatim>\<open>popup_destroy\<close> on that popup removes \<open>destroy\<close> and
  \<open>new_popup\<close> only and frees the record, so that \<open>map\<close> and \<open>unmap\<close> stay registered.
\<close>

theorem popup_destroy_keeps_map_and_unmap:
  "map_option (registered_listeners \<circ> snd) (popup_create (Some 1) 5 (Some 6) demo_world)
     = Some [Popup_listener 6 L_destroy, Popup_listener 6 L_map, Popup_listener 6 L_unmap,
             Popup_listener 6 L_new_popup]
   \<and> map_option registered_listeners
        (popup_create_then_destroy (Some 1) 5 (Some 6) demo_world)
     = Some [Popup_listener 6 L_map, Popup_listener 6 L_unmap]
   \<and> map_option (popup_parent 6) (popup_create_then_destroy (Some 1) 5 (Some 6) demo_world)
     = Some None"
proof -
  have b: "xdg_surfaces demo_world 5 = Some demo_popup_surface"
    by (simp add: demo_world_def fresh_world_def)
  have l: "listeners demo_world = []" "roots_popups demo_world = Map.empty"
    by (simp_all add: demo_world_def fresh_world_def)
  show ?thesis
    by (simp add: popup_create_then_destroy_def popup_create_result [OF b] popup_destroy_def
          c_assert_def wl_list_remove_def registered_def view_child_finish_def emit_def
          Let_def registered_listeners_def popup_parent_def l)
qed

text \<open>
  C9. A new-popup event on an existing popup creates the new popup on the View the
  spawning popup hangs on: the new record's parent is that View, the spawning popup's
  record is untouched, and the child initialisation is called with that View.
\<close>

theorem nested_popup_attached_to_root_view:
  assumes "roots_popups w p = Some popup"
    and "xdg_surfaces w base = Some b"
    and "parent = child_view (view_child popup)"
  shows "\<exists>w' popup'. popup_handle_new_popup p base (Some q) w = Some w'
     \<and> roots_popups w' q = Some popup'
     \<and> child_view (view_child popup') = parent
     \<and> wlr_popup popup' = Some base
     \<and> (q \<noteq> p \<longrightarrow> roots_popups w' p = Some popup)
     \<and> calls w' = calls w @ [View_child_init q parent (wlr_surface_of b)]"
  using assms
  by (simp add: popup_handle_new_popup_def popup_create_result [OF assms(2)])

text \<open>The popup at 6 hangs on the View at 1; the popup it spawns, at 10, hangs on the
  View at 1 as well.\<close>

theorem nested_popup_attached_to_root_view_witness:
  "popup_parent 6 one_popup_world = Some (Some 1)
   \<and> map_option (popup_parent 10) (popup_handle_new_popup 6 5 (Some 10) one_popup_world)
       = Some (Some (Some 1))
   \<and> map_option (popup_parent 6) (popup_handle_new_popup 6 5 (Some 10) one_popup_world)
       = Some (Some (Some 1))"
proof -
  let ?popup = "\<lparr>view_child = \<lparr>child_view = Some 1, child_wlr_surface = Some 7,
                                child_destroy = Some FN_popup_destroy\<rparr>,
                  wlr_popup = Some 5\<rparr>"
  have h1: "roots_popups one_popup_world 6 = Some ?popup"
    by (simp add: one_popup_world_def)
  have h2: "xdg_surfaces one_popup_world 5 = Some demo_popup_surface"
    by (simp add: one_popup_world_def demo_world_def fresh_world_def)
  have "(10::nat) \<noteq> 6" by simp
  with nested_popup_attached_to_root_view [OF h1 h2 refl, where q = 10]
  show ?thesis by (auto simp: popup_parent_def h1)
qed

text \<open>The scenario from the toplevel on: its first popup and the popup spawned from
  that one both hang on the toplevel's View.\<close>

lemma nested_popup_scenario_siblings:
  "map_option (popup_parent 6) (nested_popup_scenario 3 5 6 5 10 demo_world)
     = Some (Some (Some 1))
   \<and> map_option (popup_parent 10) (nested_popup_scenario 3 5 6 5 10 demo_world)
     = Some (Some (Some 1))"
proof -
  have b: "xdg_surfaces demo_world 5 = Some demo_popup_surface"
    by (simp add: demo_world_def fresh_world_def)
  have r: "roots_surfaces demo_world 3
             = Some \<lparr>rs_view = Some 1, pending_move_resize_configure_serial = 0\<rparr>"
    by (simp add: demo_world_def fresh_world_def)
  show ?thesis
    by (simp add: nested_popup_scenario_def handle_new_popup_def r popup_create_result [OF b]
          popup_handle_new_popup_def popup_create_def Let_def view_child_init_def emit_def
          wl_signal_add_def popup_parent_def b)
qed

text \<open>Flatness is an invariant of any run of nested new-popup events.\<close>

lemma popup_handle_new_popup_flat:
  assumes "flat_on view w"
    and "popup_handle_new_popup p base (Some q) w = Some w'"
  shows "flat_on view w'"
proof -
  from assms(2) obtain popup b where p: "roots_popups w p = Some popup"
    and b: "xdg_surfaces w base = Some b"
    by (auto simp: popup_handle_new_popup_def popup_create_def
          split: Option.bind_splits)
  from assms(1) p have "child_view (view_child popup) = view"
    by (simp add: flat_on_def)
  with assms p show ?thesis
    by (auto simp: popup_handle_new_popup_def popup_create_result [OF b] flat_on_def
          split: if_splits)
qed

lemma spawn_all_flat:
  "flat_on view w \<Longrightarrow> spawn_all events w = Some w' \<Longrightarrow> flat_on view w'"
proof (induction events arbitrary: w)
  case Nil
  then show ?case by simp
next
  case (Cons e events)
  obtain p base q where e: "e = (p, base, q)" by (cases e)
  from Cons.prems(2) obtain w1
    where s: "popup_handle_new_popup p base (Some q) w = Some w1"
      and r: "spawn_all events w1 = Some w'"
    by (auto simp: e split: Option.bind_splits)
  from popup_handle_new_popup_flat [OF Cons.prems(1) s] Cons.IH r show ?case by blast
qed

subsection \<open>Creation of a toplevel's View\<close>

lemma handle_xdg_shell_v6_surface_calloc_fails:
  assumes "xdg_surfaces w sp = Some surface"
    and "role surface = WLR_XDG_SURFACE_V6_ROLE_TOPLEVEL"
  shows "\<exists>w'. handle_xdg_shell_v6_surface desktop sp None created w = Some w'
     \<and> listeners w' = listeners w \<and> roots_surfaces w' = roots_surfaces w
     \<and> views w' = views w"
  using assms
  by (simp add: handle_xdg_shell_v6_surface_def c_assert_def Let_def wlr_log_def
        wlr_xdg_surface_v6_ping_def emit_def)

text \<open>In any world, when \<^verbatim>\<open>view_create\<close> fails the nine listeners just added stay on
  the surface's signals while the record that embeds them is freed.\<close>

lemma handle_xdg_shell_v6_surface_view_create_fails:
  assumes "xdg_surfaces w sp = Some surface"
    and "role surface = WLR_XDG_SURFACE_V6_ROLE_TOPLEVEL"
  shows "\<exists>w'. handle_xdg_shell_v6_surface desktop sp (Some rs) None w = Some w'
     \<and> listeners w' = listeners w @
          [(Surface_commit (wlr_surface_of surface),
              Roots_surface_listener rs L_surface_commit, H_handle_surface_commit),
           (Xdg_destroy sp, Roots_surface_listener rs L_destroy, H_handle_destroy),
           (Xdg_map sp, Roots_surface_listener rs L_map, H_handle_map),
           (Xdg_unmap sp, Roots_surface_listener rs L_unmap, H_handle_unmap),
           (Toplevel_request_move sp,
              Roots_surface_listener rs L_request_move, H_handle_request_move),
           (Toplevel_request_resize sp,
              Roots_surface_listener rs L_request_resize, H_handle_request_resize),
           (Toplevel_request_maximize sp,
              Roots_surface_listener rs L_request_maximize, H_handle_request_maximize),
           (Toplevel_request_fullscreen sp,
              Roots_surface_listener rs L_request_fullscreen, H_handle_request_fullscreen),
           (Xdg_new_popup sp, Roots_surface_listener rs L_new_popup, H_handle_new_popup)]
     \<and> roots_surfaces w' rs = None"
  using assms
  by (simp add: handle_xdg_shell_v6_surface_def c_assert_def Let_def wlr_log_def
        wlr_xdg_surface_v6_ping_def emit_def wl_signal_add_def view_create_def)

text \<open>
  C8, on the code: a new toplevel arrives, \<^verbatim>\<open>calloc\<close> returns the record at 3 and
  \<^verbatim>\<open>view_create\<close> fails. The handler frees the record and returns with all nine of its
  listeners still registered.
\<close>

theorem view_create_failure_keeps_listeners:
  "registered_listeners fresh_world = []
   \<and> map_option registered_listeners
        (handle_xdg_shell_v6_surface 9 2 (Some 3) None fresh_world)
     = Some [Roots_surface_listener 3 L_surface_commit, Roots_surface_listener 3 L_destroy,
             Roots_surface_listener 3 L_map, Roots_surface_listener 3 L_unmap,
             Roots_surface_listener 3 L_request_move,
             Roots_surface_listener 3 L_request_resize,
             Roots_surface_listener 3 L_request_maximize,
             Roots_surface_listener 3 L_request_fullscreen,
             Roots_surface_listener 3 L_new_popup]
   \<and> map_option (ticket_of 3) (handle_xdg_shell_v6_surface 9 2 (Some 3) None fresh_world)
     = Some None"
  by (simp add: handle_xdg_shell_v6_surface_def c_assert_def Let_def wlr_log_def
        wlr_xdg_surface_v6_ping_def emit_def wl_signal_add_def view_create_def
        registered_listeners_def ticket_of_def fresh_world_def demo_surface_def)

text \<open>The other path that frees the record, \<^verbatim>\<open>destroy\<close>, removes the nine listeners
  first: after a successful creation followed by \<^verbatim>\<open>destroy\<close> none is left.\<close>

lemma destroy_removes_every_listener:
  "map_option registered_listeners (surface_create_then_destroy 9 2 3 1 blank_view fresh_world)
     = Some []
   \<and> map_option (ticket_of 3) (surface_create_then_destroy 9 2 3 1 blank_view fresh_world)
     = Some None"
  by code_simp

lemma emit_sel:
  "calls (emit c w) = calls w @ [c]"
  "listeners (emit c w) = listeners w"
  "views (emit c w) = views w"
  "roots_surfaces (emit c w) = roots_surfaces w"
  "roots_popups (emit c w) = roots_popups w"
  "xdg_surfaces (emit c w) = xdg_surfaces w"
  "wlr_surfaces (emit c w) = wlr_surfaces w"
  by (simp_all add: emit_def)

lemma wl_signal_add_sel:
  "calls (wl_signal_add sg l h w) = calls w"
  "listeners (wl_signal_add sg l h w) = listeners w @ [(sg, l, h)]"
  "views (wl_signal_add sg l h w) = views w"
  "roots_surfaces (wl_signal_add sg l h w) = roots_surfaces w"
  "roots_popups (wl_signal_add sg l h w) = roots_popups w"
  "xdg_surfaces (wl_signal_add sg l h w) = xdg_surfaces w"
  "wlr_surfaces (wl_signal_add sg l h w) = wlr_surfaces w"
  by (simp_all add: wl_signal_add_def)

lemma view_create_sel:
  "calls (view_create d created w) = calls w @ [View_create d]"
  "listeners (view_create d created w) = listeners w"
  "views (view_create d (Some (v, fresh)) w) = (views w)(v \<mapsto> fresh)"
  "views (view_create d None w) = views w"
  "roots_surfaces (view_create d created w) = roots_surfaces w"
  by (simp_all add: view_create_def emit_def split: option.splits)

text \<open>
  C10. When a new toplevel surface arrives and both allocations succeed, the handler
  itself, before it returns, calls \<^verbatim>\<open>view_maximize(view, true)\<close> if the client's pending
  state is maximized and then \<^verbatim>\<open>view_set_fullscreen(view, true, NULL)\<close> if it is
  fullscreen, and makes neither call otherwise. These are the last calls of the handler,
  after the View has been wired to the surface.
\<close>

theorem pending_state_applied_at_creation:
  assumes "xdg_surfaces w sp = Some surface"
    and "role surface = WLR_XDG_SURFACE_V6_ROLE_TOPLEVEL"
    and "pending = client_pending (toplevel surface)"
  shows "\<exists>w'. handle_xdg_shell_v6_surface desktop sp (Some rs) (Some (v, fresh)) w = Some w'
     \<and> calls w' = calls w
          @ [Wlr_log (''new xdg toplevel: title='' @ title (toplevel surface)
                        @ '', app_id='' @ app_id (toplevel surface)),
             Wlr_xdg_surface_v6_ping sp, View_create desktop]
          @ (if maximized pending then [View_maximize v True] else [])
          @ (if fullscreen pending then [View_set_fullscreen v True None] else [])
     \<and> roots_surfaces w' rs
          = Some \<lparr>rs_view = Some v, pending_move_resize_configure_serial = 0\<rparr>
     \<and> map_option xdg_surface_v6 (views w' v) = Some (Some sp)
     \<and> map_option roots_xdg_surface_v6 (views w' v) = Some (Some rs)
     \<and> map_option view_type (views w' v) = Some ROOTS_XDG_SHELL_V6_VIEW"
  using assms
  by (simp add: handle_xdg_shell_v6_surface_def c_assert_def Let_def wlr_log_def
        wlr_xdg_surface_v6_ping_def emit_sel wl_signal_add_sel view_create_sel
        view_maximize_def view_set_fullscreen_def)

text \<open>The client of the new toplevel has asked for both states: the handler ends with
  the two calls. For a client that has asked for neither, it makes none.\<close>

theorem pending_state_applied_at_creation_witness:
  "map_option calls (handle_xdg_shell_v6_surface 9 2 (Some 3) (Some (1, blank_view)) eager_world)
     = Some [Wlr_log ''new xdg toplevel: title=term, app_id=demo'',
             Wlr_xdg_surface_v6_ping 2, View_create 9, View_maximize 1 True,
             View_set_fullscreen 1 True None]
   \<and> map_option calls (handle_xdg_shell_v6_surface 9 2 (Some 3) (Some (1, blank_view)) fresh_world)
     = Some [Wlr_log ''new xdg toplevel: title=term, app_id=demo'',
             Wlr_xdg_surface_v6_ping 2, View_create 9]"
proof -
  let ?eager = "demo_surface\<lparr>toplevel := (toplevel demo_surface)
                  \<lparr>client_pending := demo_state\<lparr>maximized := True, fullscreen := True\<rparr>\<rparr>\<rparr>"
  have e1: "xdg_surfaces eager_world 2 = Some ?eager"
    and e2: "role ?eager = WLR_XDG_SURFACE_V6_ROLE_TOPLEVEL"
    and e3: "calls eager_world = []"
    by (simp_all add: eager_world_def fresh_world_def demo_surface_def)
  have f1: "xdg_surfaces fresh_world 2 = Some demo_surface"
    and f2: "role demo_surface = WLR_XDG_SURFACE_V6_ROLE_TOPLEVEL"
    and f3: "calls fresh_world = []"
    by (simp_all add: fresh_world_def demo_surface_def)
  have t: "title (toplevel ?eager) = ''term''" "app_id (toplevel ?eager) = ''demo''"
    "title (toplevel demo_surface) = ''term''" "app_id (toplevel demo_surface) = ''demo''"
    by (simp_all add: demo_surface_def)
  have p: "maximized (client_pending (toplevel ?eager))"
    "fullscreen (client_pending (toplevel ?eager))"
    "\<not> maximized (client_pending (toplevel demo_surface))"
    "\<not> fullscreen (client_pending (toplevel demo_surface))"
    by (simp_all add: demo_surface_def demo_state_def)
  from pending_state_applied_at_creation [OF e1 e2 refl,
         where desktop = 9 and rs = 3 and v = 1 and fresh = blank_view]
  obtain w1 where a1:
    "handle_xdg_shell_v6_surface 9 2 (Some 3) (Some (1, blank_view)) eager_world = Some w1"
    and c1: "calls w1 = calls eager_world
          @ [Wlr_log (''new xdg toplevel: title='' @ title (toplevel ?eager)
                        @ '', app_id='' @ app_id (toplevel ?eager)),
             Wlr_xdg_surface_v6_ping 2, View_create 9]
          @ (if maximized (client_pending (toplevel ?eager)) then [View_maximize 1 True] else [])
          @ (if fullscreen (client_pending (toplevel ?eager))
             then [View_set_fullscreen 1 True None] else [])"
    by (elim exE conjE)
  from pending_state_applied_at_creation [OF f1 f2 refl,
         where desktop = 9 and rs = 3 and v = 1 and fresh = blank_view]
  obtain w2 where a2:
    "handle_xdg_shell_v6_surface 9 2 (Some 3) (Some (1, blank_view)) fresh_world = Some w2"
    and c2: "calls w2 = calls fresh_world
          @ [Wlr_log (''new xdg toplevel: title='' @ title (toplevel demo_surface)
                        @ '', app_id='' @ app_id (toplevel demo_surface)),
             Wlr_xdg_surface_v6_ping 2, View_create 9]
          @ (if maximized (client_pending (toplevel demo_surface))
             then [View_maximize 1 True] else [])
          @ (if fullscreen (client_pending (toplevel demo_surface))
             then [View_set_fullscreen 1 True None] else [])"
    by (elim exE conjE)
  have "calls w1 = [Wlr_log ''new xdg toplevel: title=term, app_id=demo'',
                    Wlr_xdg_surface_v6_ping 2, View_create 9, View_maximize 1 True,
                    View_set_fullscreen 1 True None]"
    unfolding c1 e3 t by (simp add: p)
  moreover have "calls w2 = [Wlr_log ''new xdg toplevel: title=term, app_id=demo'',
                             Wlr_xdg_surface_v6_ping 2, View_create 9]"
    unfolding c2 f3 t by (simp add: p)
  ultimately show ?thesis unfolding a1 a2 by simp
qed

end
